theory Spec2Isabelle
  imports Main
begin

section \<open>JavaScript values and strings\<close>

text \<open>
  The script runs on the Apps Script runtime.  A value read from a cell, an event
  or a property is a string, a number, a boolean or a date; \<open>undefined\<close> and
  \<open>null\<close> are values of their own.  Numbers are restricted to integers and a
  date is the instant it denotes.
\<close>

datatype jsval = Undefined | Null | Str string | Num int | Bool bool | DateV nat

text \<open>Truthiness, as used by \<open>!x\<close>, \<open>x || y\<close> and \<open>if (x)\<close>.\<close>

fun truthy :: "jsval \<Rightarrow> bool" where
  "truthy Undefined = False"
| "truthy Null = False"
| "truthy (Str s) = (s \<noteq> [])"
| "truthy (Num n) = (n \<noteq> 0)"
| "truthy (Bool b) = b"
| "truthy (DateV t) = True"

fun showNat :: "nat \<Rightarrow> string" where
  "showNat n = (if n < 10 then [''0123456789'' ! n]
                else showNat (n div 10) @ [''0123456789'' ! (n mod 10)])"

declare showNat.simps [simp del]

definition showInt :: "int \<Rightarrow> string" where
  "showInt i = (if i < 0 then CHR ''-'' # showNat (nat (- i)) else showNat (nat i))"

text \<open>
  What the runtime supplies and the script cannot compute by itself: the clock, the
  renderings and the parser of dates, whether a user interface is attached, JSON and
  URI encoding, and whether the mail service faults.
\<close>

record env =
  now :: nat
  dateToString :: "nat \<Rightarrow> string"
  dateToLocaleString :: "nat \<Rightarrow> string"
  dateToISOString :: "nat \<Rightarrow> string"
  dateParse :: "string \<Rightarrow> nat option"
  dateYMD :: "nat \<Rightarrow> nat \<times> nat \<times> nat"
  todayStr :: string
  uiAvailable :: bool
  mailFaults :: "string \<Rightarrow> string \<Rightarrow> string \<Rightarrow> string option"
  jsonParseObject :: "string \<Rightarrow> (string \<times> jsval) list option"
  jsonStringify :: "(string \<times> jsval) list \<Rightarrow> string"
  encodeURIComponent :: "string \<Rightarrow> string"
  localeCompare :: "string \<Rightarrow> string \<Rightarrow> int"

text \<open>\<open>String(v)\<close> and \<open>v.toString()\<close> on a value that is neither undefined nor null.\<close>

fun toString :: "env \<Rightarrow> jsval \<Rightarrow> string" where
  "toString E Undefined = ''undefined''"
| "toString E Null = ''null''"
| "toString E (Str s) = s"
| "toString E (Num n) = showInt n"
| "toString E (Bool b) = (if b then ''true'' else ''false'')"
| "toString E (DateV t) = dateToString E t"

text \<open>
  A text is held as the bytes of its UTF-8 encoding.  The white space of the
  language, which \<open>trim\<close> strips and \<open>\\s\<close> matches, is the characters U+0009 to
  U+000D, U+0020, U+00A0, U+1680, U+2000 to U+200A, U+2028, U+2029, U+202F, U+205F,
  U+3000 and U+FEFF.
\<close>

definition asciiSpaces :: string where
  "asciiSpaces = [CHR 0x09, CHR 0x0A, CHR 0x0B, CHR 0x0C, CHR 0x0D, CHR 0x20]"

definition wideSpaces :: "string list" where
  "wideSpaces =
     [[CHR 0xC2, CHR 0xA0], [CHR 0xE1, CHR 0x9A, CHR 0x80],
      [CHR 0xE2, CHR 0x80, CHR 0x80], [CHR 0xE2, CHR 0x80, CHR 0x81], [CHR 0xE2, CHR 0x80, CHR 0x82],
      [CHR 0xE2, CHR 0x80, CHR 0x83], [CHR 0xE2, CHR 0x80, CHR 0x84], [CHR 0xE2, CHR 0x80, CHR 0x85],
      [CHR 0xE2, CHR 0x80, CHR 0x86], [CHR 0xE2, CHR 0x80, CHR 0x87], [CHR 0xE2, CHR 0x80, CHR 0x88],
      [CHR 0xE2, CHR 0x80, CHR 0x89], [CHR 0xE2, CHR 0x80, CHR 0x8A],
      [CHR 0xE2, CHR 0x80, CHR 0xA8], [CHR 0xE2, CHR 0x80, CHR 0xA9], [CHR 0xE2, CHR 0x80, CHR 0xAF],
      [CHR 0xE2, CHR 0x81, CHR 0x9F], [CHR 0xE3, CHR 0x80, CHR 0x80], [CHR 0xEF, CHR 0xBB, CHR 0xBF]]"

text \<open>
  The number of bytes of the white space character a text starts with, and of the
  one it ends with; 0 when it starts, or ends, with something else.
\<close>

definition leadingSpace :: "string \<Rightarrow> nat" where
  "leadingSpace s =
     (case s of
        [] \<Rightarrow> 0
      | c # cs \<Rightarrow>
          if c \<in> set asciiSpaces then 1
          else if c \<in> set (map hd wideSpaces) then
            (case find (\<lambda>p. take (length p) s = p) wideSpaces of Some p \<Rightarrow> length p | None \<Rightarrow> 0)
          else 0)"

definition trailingSpace :: "string \<Rightarrow> nat" where
  "trailingSpace s =
     (case rev s of
        [] \<Rightarrow> 0
      | c # cs \<Rightarrow>
          if c \<in> set asciiSpaces then 1
          else if c \<in> set (map last wideSpaces) then
            (case find (\<lambda>p. take (length p) (rev s) = rev p) wideSpaces of Some p \<Rightarrow> length p | None \<Rightarrow> 0)
          else 0)"

function dropSpaces :: "string \<Rightarrow> string" where
  "dropSpaces s = (if leadingSpace s = 0 then s else dropSpaces (drop (leadingSpace s) s))"
  by pat_completeness auto
termination
proof (relation "measure length")
  fix s :: string
  assume "leadingSpace s \<noteq> 0"
  then have "s \<noteq> []" by (auto simp: leadingSpace_def)
  with \<open>leadingSpace s \<noteq> 0\<close> show "(drop (leadingSpace s) s, s) \<in> measure length" by simp
qed simp

function dropSpacesEnd :: "string \<Rightarrow> string" where
  "dropSpacesEnd s = (if trailingSpace s = 0 then s else dropSpacesEnd (take (length s - trailingSpace s) s))"
  by pat_completeness auto
termination
proof (relation "measure length")
  fix s :: string
  assume "trailingSpace s \<noteq> 0"
  then have "s \<noteq> []" by (auto simp: trailingSpace_def)
  with \<open>trailingSpace s \<noteq> 0\<close> show "(take (length s - trailingSpace s) s, s) \<in> measure length" by simp
qed simp

declare dropSpaces.simps [simp del]
declare dropSpacesEnd.simps [simp del]

definition trim :: "string \<Rightarrow> string" where
  "trim s = dropSpacesEnd (dropSpaces s)"

text \<open>
  \<open>toLowerCase\<close> as far as the comparisons with the fixed labels need it: the letters
  A to Z are mapped and every other byte is kept.  The labels (\<open>1st\<close> to \<open>5th\<close>,
  \<open>active\<close>) are made of ASCII characters other than k, and no character outside
  A to Z has one of those as its lower case.  The same mapping is the case folding
  of a regular expression with the flag \<open>i\<close> on an ASCII literal.
\<close>

definition lowerChar :: "char \<Rightarrow> char" where
  "lowerChar c = (case map_of (zip ''ABCDEFGHIJKLMNOPQRSTUVWXYZ'' ''abcdefghijklmnopqrstuvwxyz'') c of
                    Some d \<Rightarrow> d | None \<Rightarrow> c)"

definition toLowerCase :: "string \<Rightarrow> string" where
  "toLowerCase s = map lowerChar s"

text \<open>\<open>(v || '').toString().trim()\<close>, the way every header cell is read.\<close>

definition cellText :: "env \<Rightarrow> jsval \<Rightarrow> string" where
  "cellText E v = trim (if truthy v then toString E v else [])"

section \<open>The spreadsheet store\<close>

text \<open>
  A sheet is a grid of cell values with a note per cell.  An empty cell reads as the
  empty string.  \<open>getLastRow\<close> and \<open>getLastColumn\<close> are the last row and
  column of the grid that hold content; writing outside the grid enlarges it.  A
  value is stored as it is written, except that undefined and null leave the cell
  empty.  Formats, protections and column visibility are not part of the model.
\<close>

record sheet =
  sheetName :: string
  cells :: "nat \<Rightarrow> nat \<Rightarrow> jsval"
  cellNotes :: "nat \<Rightarrow> nat \<Rightarrow> string"
  maxRows :: nat
  maxColumns :: nat
  hidden :: bool

definition blankCell :: jsval where
  "blankCell = Str []"

fun lastWhere :: "(nat \<Rightarrow> bool) \<Rightarrow> nat \<Rightarrow> nat" where
  "lastWhere P 0 = 0"
| "lastWhere P (Suc n) = (if P (Suc n) then Suc n else lastWhere P n)"

definition getLastRow :: "sheet \<Rightarrow> nat" where
  "getLastRow sh =
     lastWhere (\<lambda>r. list_ex (\<lambda>c. cells sh r c \<noteq> blankCell) [1..<Suc (maxColumns sh)]) (maxRows sh)"

definition getLastColumn :: "sheet \<Rightarrow> nat" where
  "getLastColumn sh =
     lastWhere (\<lambda>c. list_ex (\<lambda>r. cells sh r c \<noteq> blankCell) [1..<Suc (maxRows sh)]) (maxColumns sh)"

text \<open>\<open>getRange(row, col, numRows, numCols).getValues()\<close>.\<close>

definition getValues :: "sheet \<Rightarrow> nat \<Rightarrow> nat \<Rightarrow> nat \<Rightarrow> nat \<Rightarrow> jsval list list" where
  "getValues sh row col numRows numCols =
     map (\<lambda>r. map (\<lambda>c. cells sh r c) [col..<col + numCols]) [row..<row + numRows]"

text \<open>\<open>getDataRange().getValues()\<close>: at least the cell A1.\<close>

definition getDataRangeValues :: "sheet \<Rightarrow> jsval list list" where
  "getDataRangeValues sh = getValues sh 1 1 (max 1 (getLastRow sh)) (max 1 (getLastColumn sh))"

definition stored :: "jsval \<Rightarrow> jsval" where
  "stored v = (case v of Undefined \<Rightarrow> blankCell | Null \<Rightarrow> blankCell | _ \<Rightarrow> v)"

definition setValue :: "nat \<Rightarrow> nat \<Rightarrow> jsval \<Rightarrow> sheet \<Rightarrow> sheet" where
  "setValue r c v sh =
     sh\<lparr>cells := (cells sh)(r := (cells sh r)(c := stored v)),
        maxRows := max (maxRows sh) r, maxColumns := max (maxColumns sh) c\<rparr>"

definition clearContent :: "nat \<Rightarrow> nat \<Rightarrow> sheet \<Rightarrow> sheet" where
  "clearContent r c sh = sh\<lparr>cells := (cells sh)(r := (cells sh r)(c := blankCell))\<rparr>"

definition setNote :: "nat \<Rightarrow> nat \<Rightarrow> string \<Rightarrow> sheet \<Rightarrow> sheet" where
  "setNote r c n sh = sh\<lparr>cellNotes := (cellNotes sh)(r := (cellNotes sh r)(c := n))\<rparr>"

text \<open>\<open>getRange(row, 1, 1, n).setValues([vs])\<close>: one row, written left to right.\<close>

fun setRowFrom :: "nat \<Rightarrow> nat \<Rightarrow> jsval list \<Rightarrow> sheet \<Rightarrow> sheet" where
  "setRowFrom r c [] sh = sh"
| "setRowFrom r c (v # vs) sh = setRowFrom r (Suc c) vs (setValue r c v sh)"

fun setRowsFrom :: "nat \<Rightarrow> jsval list list \<Rightarrow> sheet \<Rightarrow> sheet" where
  "setRowsFrom r [] sh = sh"
| "setRowsFrom r (vs # vss) sh = setRowsFrom (Suc r) vss (setRowFrom r 1 vs sh)"

definition appendRow :: "jsval list \<Rightarrow> sheet \<Rightarrow> sheet" where
  "appendRow vs sh = setRowFrom (Suc (getLastRow sh)) 1 vs sh"

text \<open>A sheet as \<open>insertSheet\<close> creates it: 1000 rows, 26 columns, no content.\<close>

definition newSheet :: "string \<Rightarrow> sheet" where
  "newSheet n = \<lparr>sheetName = n, cells = (\<lambda>r c. blankCell), cellNotes = (\<lambda>r c. []),
                 maxRows = 1000, maxColumns = 26, hidden = False\<rparr>"

text \<open>
  The spreadsheet with everything else the script writes to: the document and user
  property stores, the mail service, the user interface (toasts and alerts) and the
  execution log.
\<close>

record mail =
  mailTo :: string
  mailSubject :: string
  mailBody :: string

record world =
  sheets :: "sheet list"
  documentProperties :: "string \<Rightarrow> string option"
  userProperties :: "string \<Rightarrow> string option"
  outbox :: "mail list"
  uiMessages :: "(string \<times> string) list"
  loggerLog :: "string list"

definition getSheetByName :: "world \<Rightarrow> string \<Rightarrow> sheet option" where
  "getSheetByName w n = find (\<lambda>s. sheetName s = n) (sheets w)"

definition updateSheet :: "string \<Rightarrow> (sheet \<Rightarrow> sheet) \<Rightarrow> world \<Rightarrow> world" where
  "updateSheet n f w = w\<lparr>sheets := map (\<lambda>s. if sheetName s = n then f s else s) (sheets w)\<rparr>"

definition insertSheet :: "string \<Rightarrow> world \<Rightarrow> world" where
  "insertSheet n w = w\<lparr>sheets := sheets w @ [newSheet n]\<rparr>"

definition getValueAt :: "world \<Rightarrow> string \<Rightarrow> nat \<Rightarrow> nat \<Rightarrow> jsval" where
  "getValueAt w n r c = (case getSheetByName w n of None \<Rightarrow> blankCell | Some sh \<Rightarrow> cells sh r c)"

definition getNoteAt :: "world \<Rightarrow> string \<Rightarrow> nat \<Rightarrow> nat \<Rightarrow> string" where
  "getNoteAt w n r c = (case getSheetByName w n of None \<Rightarrow> [] | Some sh \<Rightarrow> cellNotes sh r c)"

definition loggerLogLine :: "string \<Rightarrow> world \<Rightarrow> world" where
  "loggerLogLine msg w = w\<lparr>loggerLog := loggerLog w @ [msg]\<rparr>"

text \<open>\<open>SpreadsheetApp.getActive().toast\<close> and \<open>getUi().alert\<close>, guarded by \<open>canUseUi()\<close>.\<close>

definition toast :: "env \<Rightarrow> string \<Rightarrow> string \<Rightarrow> world \<Rightarrow> world" where
  "toast E msg title w = (if uiAvailable E then w\<lparr>uiMessages := uiMessages w @ [(title, msg)]\<rparr> else w)"

definition debugLog :: "env \<Rightarrow> string \<Rightarrow> world \<Rightarrow> world" where
  "debugLog E message w =
     (let w1 = (if getSheetByName w ''DebugLog'' = None then insertSheet ''DebugLog'' w else w);
          w2 = updateSheet ''DebugLog'' (appendRow [DateV (now E), Str message]) w1
      in loggerLogLine message w2)"

section \<open>Configuration\<close>

definition FIRST_STUDENT_ROW :: nat where
  "FIRST_STUDENT_ROW = 3"

definition TEAM_TEMPLATE_NAME :: string where
  "TEAM_TEMPLATE_NAME = ''TeamTemplate''"

definition EXCLUDE_SHEETS :: "string list" where
  "EXCLUDE_SHEETS = [''Variables'', ''Templates'', ''StudentList'', ''EmailLog'', ''DebugLog'',
                     ''EventLog'', TEAM_TEMPLATE_NAME]"

definition INFRACTION_SEQUENCE :: "string list" where
  "INFRACTION_SEQUENCE = [''1st'', ''2nd'', ''3rd'', ''4th'', ''5th'']"

text \<open>A thrown fault: a \<open>TypeError\<close> of the runtime or an \<open>Error\<close> the script throws.\<close>

datatype fault = TypeError string | ErrorThrown string

fun faultText :: "fault \<Rightarrow> string" where
  "faultText (TypeError m) = ''TypeError: '' @ m"
| "faultText (ErrorThrown m) = ''Error: '' @ m"

text \<open>\<open>Array.prototype.findIndex\<close>; \<open>None\<close> stands for \<open>-1\<close>.\<close>

fun findIndex :: "('a \<Rightarrow> bool) \<Rightarrow> 'a list \<Rightarrow> nat option" where
  "findIndex P [] = None"
| "findIndex P (x # xs) = (if P x then Some 0 else map_option Suc (findIndex P xs))"

section \<open>Week blocks\<close>

record ColumnBlock =
  startCol :: nat
  endCol :: nat

record WeekColumnBlock = ColumnBlock +
  label :: string

definition getWeekColumnBlocks :: "env \<Rightarrow> sheet \<Rightarrow> WeekColumnBlock list" where
  "getWeekColumnBlocks E sh =
     (let width = getLastColumn sh in
      if width < 5 then []
      else
        let headerData = getValues sh 1 1 2 width;
            topRow = headerData ! 0;
            secondRow = headerData ! 1
        in map (\<lambda>c. \<lparr>startCol = max 1 (c + 1 - 4), endCol = c + 1, label = cellText E (topRow ! c)\<rparr>)
               (filter (\<lambda>c. toLowerCase (cellText E (secondRow ! c)) = ''5th'') [0..<length secondRow]))"

text \<open>
  \<open>getActiveWeekForSheet\<close>: the first cell of row 1 that reads \<open>active\<close> and has a
  \<open>5th\<close> column to its right decides.  With a marker found and no second row in
  the data range, \<open>data[1].length\<close> is a type error.
\<close>

fun scanActive :: "env \<Rightarrow> jsval list list \<Rightarrow> nat list \<Rightarrow> fault + string option" where
  "scanActive E data [] = Inr None"
| "scanActive E data (c # cs) =
     (if toLowerCase (cellText E (data ! 0 ! c)) = ''active'' then
        (if length data < 2 then Inl (TypeError ''Cannot read properties of undefined (reading length)'')
         else
           (case find (\<lambda>cc. cellText E (data ! 1 ! cc) = ''5th'') [c + 1..<length (data ! 1)] of
              Some cc \<Rightarrow>
                (let weekDate = cellText E (data ! 0 ! cc)
                 in Inr (if weekDate \<noteq> [] then Some (''Week of '' @ weekDate) else None))
            | None \<Rightarrow> scanActive E data cs))
      else scanActive E data cs)"

definition getActiveWeekForSheet :: "env \<Rightarrow> sheet \<Rightarrow> fault + string option" where
  "getActiveWeekForSheet E sh =
     (let data = getDataRangeValues sh in scanActive E data [0..<length (data ! 0)])"

text \<open>\<open>s.replace(/^Week of\\s+/i, '')\<close>.\<close>

definition stripWeekOf :: "string \<Rightarrow> string" where
  "stripWeekOf s =
     (if toLowerCase (take 7 s) = ''week of'' \<and> leadingSpace (drop 7 s) \<noteq> 0
      then dropSpaces (drop 7 s) else s)"

definition getActiveWeekBlockCols :: "env \<Rightarrow> sheet \<Rightarrow> fault + ColumnBlock option" where
  "getActiveWeekBlockCols E sh =
     (let width = getLastColumn sh in
      if width < 5 then Inr None
      else
        let data = getValues sh 1 1 3 width in
        (case getActiveWeekForSheet E sh of
           Inl err \<Rightarrow> Inl err
         | Inr None \<Rightarrow> Inr None
         | Inr (Some activeWeekStr) \<Rightarrow>
             if activeWeekStr = [] then Inr None
             else
               let weekDate = trim (stripWeekOf activeWeekStr) in
               (case find (\<lambda>c. cellText E (data ! 1 ! c) = ''5th'' \<and> cellText E (data ! 0 ! c) = weekDate)
                          [0..<length (data ! 1)] of
                  Some c \<Rightarrow> Inr (Some \<lparr>startCol = max 1 (c + 1 - 4), endCol = c + 1\<rparr>)
                | None \<Rightarrow> Inr None)))"

section \<open>The edit guard\<close>

text \<open>
  The edit event of a single cell: the sheet, row and column of \<open>e.range\<close>, and
  \<open>e.value\<close> and \<open>e.oldValue\<close>, each of which may be undefined.  The trigger runs
  after the edit: the sheet already holds the new content.
\<close>

record editEvent =
  evSheet :: string
  evRow :: nat
  evCol :: nat
  evValue :: "jsval option"
  evOldValue :: "jsval option"

definition getSavedUserEmail :: "world \<Rightarrow> string option" where
  "getSavedUserEmail w =
     (case userProperties w ''bssUserEmail'' of
        None \<Rightarrow> None
      | Some s \<Rightarrow> if s \<noteq> [] then Some s else None)"

text \<open>\<open>if (typeof e.oldValue !== 'undefined') range.setValue(e.oldValue) else range.clearContent()\<close>
  on the edited cell.\<close>

definition restoreOld :: "editEvent \<Rightarrow> world \<Rightarrow> world" where
  "restoreOld e w =
     (case evOldValue e of
        Some v \<Rightarrow> updateSheet (evSheet e) (setValue (evRow e) (evCol e) v) w
      | None \<Rightarrow> updateSheet (evSheet e) (clearContent (evRow e) (evCol e)) w)"

text \<open>Reverting the working range: the edited cell, or the relocation target.\<close>

definition revertWorking :: "editEvent \<Rightarrow> bool \<Rightarrow> nat \<Rightarrow> world \<Rightarrow> world" where
  "revertWorking e relocated workingColumn w =
     (if \<not> relocated then restoreOld e w
      else updateSheet (evSheet e) (clearContent (evRow e) workingColumn) w)"

text \<open>\<open>requiredValue === '' || requiredValue === null\<close>.\<close>

definition isMissing :: "jsval \<Rightarrow> bool" where
  "isMissing v = (v = Str [] \<or> v = Null)"

definition newValOf :: "editEvent \<Rightarrow> sheet \<Rightarrow> jsval" where
  "newValOf e sh = (case evValue e of None \<Rightarrow> cells sh (evRow e) (evCol e) | Some v \<Rightarrow> v)"

definition weekBlockFor :: "env \<Rightarrow> sheet \<Rightarrow> nat \<Rightarrow> ColumnBlock option \<Rightarrow> WeekColumnBlock option" where
  "weekBlockFor E sh col cols =
     (case find (\<lambda>block. startCol block \<le> col \<and> col \<le> endCol block) (getWeekColumnBlocks E sh) of
        Some block \<Rightarrow> Some block
      | None \<Rightarrow>
          (case cols of
             Some b \<Rightarrow> Some \<lparr>startCol = startCol b, endCol = endCol b, label = ''active''\<rparr>
           | None \<Rightarrow> None))"

text \<open>
  The state of the guard between its steps: the store, whether the value was moved,
  the working column and the working rank index.
\<close>

type_synonym guardState = "world \<times> bool \<times> nat \<times> nat"

definition relocateStep ::
  "env \<Rightarrow> editEvent \<Rightarrow> nat \<Rightarrow> jsval \<Rightarrow> WeekColumnBlock \<Rightarrow> world \<Rightarrow> guardState" where
  "relocateStep E e labelIndex newVal weekBlock w =
     (case find (\<lambda>idx. isMissing (getValueAt w (evSheet e) (evRow e) (startCol weekBlock + idx)))
                [0..<length INFRACTION_SEQUENCE] of
        None \<Rightarrow> (w, False, evCol e, labelIndex)
      | Some firstMissingIndex \<Rightarrow>
          if labelIndex > firstMissingIndex then
            (let targetColumn = startCol weekBlock + firstMissingIndex;
                 w1 = restoreOld e w;
                 w2 = updateSheet (evSheet e) (setValue (evRow e) targetColumn newVal) w1;
                 w3 = toast E (''Value moved to the '' @ INFRACTION_SEQUENCE ! firstMissingIndex
                                @ '' infraction column for this week.'')
                        ''BSS: Sequence Adjusted'' w2;
                 w4 = debugLog E (''['' @ evSheet e @ ''] Auto-moved entry at R'' @ showNat (evRow e)
                                   @ ''C'' @ showNat (evCol e) @ '' to ''
                                   @ INFRACTION_SEQUENCE ! firstMissingIndex @ '' column (C''
                                   @ showNat targetColumn @ '').'') w3
             in (w4, True, targetColumn, firstMissingIndex))
          else (w, False, evCol e, labelIndex))"

definition sequenceCheck ::
  "env \<Rightarrow> editEvent \<Rightarrow> WeekColumnBlock \<Rightarrow> guardState \<Rightarrow> world + guardState" where
  "sequenceCheck E e weekBlock st =
     (case st of (w, relocated, workingColumn, workingLabelIndex) \<Rightarrow>
        (case find (\<lambda>i. isMissing (getValueAt w (evSheet e) (evRow e) (startCol weekBlock + i)))
                   [0..<workingLabelIndex] of
           None \<Rightarrow> Inr st
         | Some i \<Rightarrow>
             Inl (debugLog E (''['' @ evSheet e @ ''] Blocked '' @ INFRACTION_SEQUENCE ! workingLabelIndex
                               @ '' entry at R'' @ showNat (evRow e) @ ''C'' @ showNat workingColumn
                               @ '': missing '' @ INFRACTION_SEQUENCE ! i @ ''.'')
                    (toast E (''Enter the '' @ INFRACTION_SEQUENCE ! i @ '' infraction before recording the ''
                               @ INFRACTION_SEQUENCE ! workingLabelIndex @ ''.'')
                       ''BSS: Sequence Required''
                       (revertWorking e relocated workingColumn w)))))"

definition blockedNote :: string where
  "blockedNote = ''Edit blocked: confirm your email via menu '' @ [CHR 0xE2, CHR 0x80, CHR 0x9C]
       @ ''Conway BSS '' @ [CHR 0xE2, CHR 0x86, CHR 0x92] @ '' Confirm My Email''
       @ [CHR 0xE2, CHR 0x80, CHR 0xA6, CHR 0xE2, CHR 0x80, CHR 0x9D] @ ''.''"

definition stampNote :: "env \<Rightarrow> string \<Rightarrow> string \<Rightarrow> string" where
  "stampNote E email prevNote =
     ''Entered by: '' @ email @ '' | '' @ dateToLocaleString E (now E)
       @ (if prevNote \<noteq> [] then CHR 0x0A # prevNote else [])"

definition identityStep :: "env \<Rightarrow> editEvent \<Rightarrow> guardState \<Rightarrow> world" where
  "identityStep E e st =
     (case st of (w, relocated, workingColumn, workingLabelIndex) \<Rightarrow>
        (case getSavedUserEmail w of
           None \<Rightarrow>
             updateSheet (evSheet e) (setNote (evRow e) (evCol e) blockedNote)
               (revertWorking e relocated workingColumn w)
         | Some email \<Rightarrow>
             updateSheet (evSheet e)
               (setNote (evRow e) workingColumn
                  (stampNote E email (getNoteAt w (evSheet e) (evRow e) workingColumn))) w))"

definition onEdit :: "env \<Rightarrow> editEvent option \<Rightarrow> world \<Rightarrow> world" where
  "onEdit E eo w =
     (case eo of
        None \<Rightarrow> w
      | Some e \<Rightarrow>
          (case getSheetByName w (evSheet e) of
             None \<Rightarrow> w
           | Some sheet \<Rightarrow>
               if evSheet e \<in> set EXCLUDE_SHEETS then w
               else if evRow e \<le> FIRST_STUDENT_ROW then w
               else
                 (case getActiveWeekBlockCols E sheet of
                    Inl err \<Rightarrow> loggerLogLine (''onEdit error: '' @ faultText err) w
                  | Inr cols \<Rightarrow>
                      if (case cols of
                            Some b \<Rightarrow> \<not> (startCol b \<le> evCol e \<and> evCol e \<le> endCol b)
                          | None \<Rightarrow> False)
                      then
                        debugLog E (''['' @ evSheet e @ ''] Blocked edit outside current week at R''
                                     @ showNat (evRow e) @ ''C'' @ showNat (evCol e) @ ''.'')
                          (toast E (''Edits are locked for past/future weeks. ''
                                     @ ''Please use the current week's columns only.'')
                             ''BSS: Edit Blocked'' (restoreOld e w))
                      else
                        (case findIndex (\<lambda>entry. entry = toLowerCase (cellText E (cells sheet 2 (evCol e))))
                                        INFRACTION_SEQUENCE of
                           None \<Rightarrow> w
                         | Some labelIndex \<Rightarrow>
                             (let newVal = newValOf e sheet in
                              if \<not> truthy newVal \<or> newVal = Str [] then w
                              else
                                (case (case weekBlockFor E sheet (evCol e) cols of
                                         None \<Rightarrow> Inr (w, False, evCol e, labelIndex)
                                       | Some weekBlock \<Rightarrow>
                                           sequenceCheck E e weekBlock
                                             (relocateStep E e labelIndex newVal weekBlock w)) of
                                   Inl w' \<Rightarrow> w'
                                 | Inr st \<Rightarrow> identityStep E e st))))))"

text \<open>
  Vocabulary for the properties of the guard: whether a sheet exists, the previous
  content of the edited cell as the event reports it, and the sequence invariant of
  one row and one block of five rank columns starting at column \<open>s\<close>: a rank cell
  is filled only if all lower ranks are.
\<close>

definition hasSheet :: "world \<Rightarrow> string \<Rightarrow> bool" where
  "hasSheet w n = (getSheetByName w n \<noteq> None)"

definition oldContent :: "editEvent \<Rightarrow> jsval" where
  "oldContent e = (case evOldValue e of Some v \<Rightarrow> stored v | None \<Rightarrow> blankCell)"

definition sequenceOK :: "(nat \<Rightarrow> jsval) \<Rightarrow> nat \<Rightarrow> bool" where
  "sequenceOK rowCells s =
     list_all (\<lambda>i. isMissing (rowCells (s + i)) \<or> list_all (\<lambda>j. \<not> isMissing (rowCells (s + j))) [0..<i])
       [0..<5]"

section \<open>The event ledger\<close>

text \<open>\<open>a === b\<close>: equal values of the same type; two date objects are never identical.\<close>

definition strictEq :: "jsval \<Rightarrow> jsval \<Rightarrow> bool" where
  "strictEq a b = (case (a, b) of (DateV s, DateV t) \<Rightarrow> False | _ \<Rightarrow> a = b)"

text \<open>Reading an array element: an index outside the array gives \<open>undefined\<close>.\<close>

definition jsAt :: "jsval list \<Rightarrow> nat \<Rightarrow> jsval" where
  "jsAt xs i = (if i < length xs then xs ! i else Undefined)"

definition jsAtOpt :: "jsval list \<Rightarrow> nat option \<Rightarrow> jsval" where
  "jsAtOpt xs io = (case io of None \<Rightarrow> Undefined | Some i \<Rightarrow> jsAt xs i)"

definition indexOf :: "jsval list \<Rightarrow> jsval \<Rightarrow> nat option" where
  "indexOf xs v = findIndex (\<lambda>x. strictEq x v) xs"

text \<open>\<open>Array.prototype.join\<close>: undefined and null elements give the empty string.\<close>

fun joinWith :: "string \<Rightarrow> string list \<Rightarrow> string" where
  "joinWith sep [] = []"
| "joinWith sep [x] = x"
| "joinWith sep (x # y # ys) = x @ sep @ joinWith sep (y # ys)"

definition joinElem :: "env \<Rightarrow> jsval \<Rightarrow> string" where
  "joinElem E v = (case v of Undefined \<Rightarrow> [] | Null \<Rightarrow> [] | _ \<Rightarrow> toString E v)"

definition joinKey :: "env \<Rightarrow> jsval list \<Rightarrow> string" where
  "joinKey E vs = joinWith ''|'' (map (joinElem E) vs)"

text \<open>An object with string keys, in insertion order.\<close>

type_synonym jsobject = "(string \<times> jsval) list"

fun objSet :: "string \<Rightarrow> jsval \<Rightarrow> jsobject \<Rightarrow> jsobject" where
  "objSet k v [] = [(k, v)]"
| "objSet k v ((k', v') # kvs) = (if k = k' then (k, v) # kvs else (k', v') # objSet k v kvs)"

definition objGet :: "jsobject \<Rightarrow> string \<Rightarrow> jsval" where
  "objGet obj k = (case map_of obj k of None \<Rightarrow> Undefined | Some v \<Rightarrow> v)"

text \<open>An object built by \<open>keys.forEach((key, idx) => obj[key] = values[idx])\<close>.\<close>

definition objFromRow :: "env \<Rightarrow> jsval list \<Rightarrow> jsval list \<Rightarrow> jsobject" where
  "objFromRow E keys vals =
     foldl (\<lambda>obj idx. objSet (toString E (keys ! idx)) (jsAt vals idx) obj) [] [0..<length keys]"

definition months :: "string list" where
  "months = [''Jan'', ''Feb'', ''Mar'', ''Apr'', ''May'', ''Jun'', ''Jul'', ''Aug'', ''Sep'', ''Oct'',
             ''Nov'', ''Dec'']"

definition formatYMD :: "nat \<times> nat \<times> nat \<Rightarrow> string" where
  "formatYMD ymd =
     (case ymd of (y, m, d) \<Rightarrow>
        (if m < length months then months ! m else ''undefined'') @ '' '' @ showNat d @ '', '' @ showNat y)"

definition formatWeekDate :: "env \<Rightarrow> jsval \<Rightarrow> string" where
  "formatWeekDate E dateVal =
     (case dateVal of
        DateV t \<Rightarrow> formatYMD (dateYMD E t)
      | Str s \<Rightarrow>
          if trim s \<noteq> [] then
            (case dateParse E s of None \<Rightarrow> s | Some t \<Rightarrow> formatYMD (dateYMD E t))
          else []
      | _ \<Rightarrow> [])"

definition getWeekForInfractionCol :: "env \<Rightarrow> jsval list list \<Rightarrow> nat \<Rightarrow> string" where
  "getWeekForInfractionCol E headers col =
     (let weekOf = (\<lambda>c. let weekDate = cellText E (jsAt (headers ! 0) c)
                         in if weekDate \<noteq> [] then ''Week of '' @ weekDate else ''Unknown Week'')
      in if cellText E (jsAt (headers ! 1) col) = ''5th'' then weekOf col
         else
           (case find (\<lambda>c. cellText E (jsAt (headers ! 1) c) = ''5th'') [col + 1..<length (headers ! 1)] of
              Some c \<Rightarrow> weekOf c
            | None \<Rightarrow> ''Unknown Week''))"

text \<open>
  Group 1 of the first match of \<open>/Entered by:\\s*([^|]+)\\s*\\|/i\<close>.  At an occurrence
  of the literal, the group is the text between the white space that follows and
  the next bar; when that text is empty, the greedy white space gives back its last
  character to the group.  Without a bar to the right nothing matches, here or
  later.
\<close>

fun matchEnteredBy :: "string \<Rightarrow> string option" where
  "matchEnteredBy [] = None"
| "matchEnteredBy (c # cs) =
     (if toLowerCase (take 11 (c # cs)) = ''entered by:'' then
        (let rest = drop 11 (c # cs);
             ws = take (length rest - length (dropSpaces rest)) rest;
             grp = takeWhile (\<lambda>x. x \<noteq> CHR ''|'') (dropSpaces rest);
             after = dropWhile (\<lambda>x. x \<noteq> CHR ''|'') (dropSpaces rest)
         in if after = [] then None
            else if grp \<noteq> [] then Some grp
            else if ws \<noteq> [] then Some (drop (length ws - trailingSpace ws) ws)
            else matchEnteredBy cs)
      else matchEnteredBy cs)"

definition enteredByOf :: "string \<Rightarrow> string" where
  "enteredByOf note =
     (if note = [] then ''unknown''
      else
        (case matchEnteredBy (takeWhile (\<lambda>x. x \<noteq> CHR 0x0A) note) of
           None \<Rightarrow> ''unknown''
         | Some g \<Rightarrow> if g \<noteq> [] \<and> CHR ''@'' \<in> set (trim g) then trim g else ''unknown''))"

definition EVENT_LOG_HEADERS :: "string list" where
  "EVENT_LOG_HEADERS = [''Timestamp'', ''DSID'', ''Last Name'', ''First Name'', ''Grade'', ''Team'',
     ''Infraction'', ''Week'', ''Entered By'', ''Sheet Name'', ''Source Value'', ''All Student Data'',
     ''Alerted'']"

text \<open>\<open>eventCol\<close>: header text to column index; a later column of the same name wins.\<close>

definition eventColOf :: "env \<Rightarrow> jsval list \<Rightarrow> string \<Rightarrow> nat option" where
  "eventColOf E eventHeaders =
     foldl (\<lambda>m i. m(toString E (eventHeaders ! i) \<mapsto> i)) Map.empty [0..<length eventHeaders]"

text \<open>The key of a ledger row, as the reconciliation computes it when it loads the ledger.\<close>

definition ledgerRowKey :: "env \<Rightarrow> (string \<Rightarrow> nat option) \<Rightarrow> jsval list \<Rightarrow> string" where
  "ledgerRowKey E eventCol row =
     joinKey E [jsAtOpt row (eventCol ''DSID''), jsAtOpt row (eventCol ''Infraction''),
                Str (formatWeekDate E (jsAtOpt row (eventCol ''Week'')))]"

definition initialEventMap :: "env \<Rightarrow> (string \<Rightarrow> nat option) \<Rightarrow> jsval list list \<Rightarrow> string \<Rightarrow> nat option" where
  "initialEventMap E eventCol logged =
     foldl (\<lambda>m i. m(ledgerRowKey E eventCol (logged ! i) \<mapsto> i + 1)) Map.empty [1..<length logged]"

text \<open>
  The state of one reconciliation run.  A fault ends the run: the steps that follow
  are skipped and the writes made so far stay.
\<close>

record scanState =
  scWorld :: world
  scEventMap :: "string \<Rightarrow> nat option"
  scNewEvents :: "jsval list list"
  scFault :: "fault option"

fun forEachStep :: "('a \<Rightarrow> scanState \<Rightarrow> scanState) \<Rightarrow> 'a list \<Rightarrow> scanState \<Rightarrow> scanState" where
  "forEachStep f [] st = st"
| "forEachStep f (x # xs) st = (if scFault st \<noteq> None then st else forEachStep f xs (f x st))"

text \<open>The directory entry of a subject, or the view's own row when the directory has none.\<close>

definition studentDataOf ::
  "env \<Rightarrow> jsval list list \<Rightarrow> jsval list \<Rightarrow> jsval list \<Rightarrow> jsval list \<Rightarrow> jsval \<Rightarrow> jsobject" where
  "studentDataOf E students studentHeaders sheetHeaders studentRow dsid =
     (case find (\<lambda>i. strictEq (jsAtOpt (students ! i) (indexOf studentHeaders (Str ''DSID''))) dsid)
                [1..<length students] of
        Some i \<Rightarrow> objFromRow E studentHeaders (students ! i)
      | None \<Rightarrow> objFromRow E sheetHeaders studentRow)"

text \<open>The key of an observed rank cell: subject id, the rank label as the header holds it, week.\<close>

definition cellKey :: "env \<Rightarrow> jsval list list \<Rightarrow> jsval \<Rightarrow> nat \<Rightarrow> string" where
  "cellKey E data dsid infCol =
     joinKey E [dsid, jsAt (data ! 1) infCol,
                Str (formatWeekDate E (Str (getWeekForInfractionCol E data infCol)))]"

text \<open>One rank cell of one subject row: skipped, matched against the ledger, or queued.\<close>

definition processCell ::
  "env \<Rightarrow> string \<Rightarrow> jsval list list \<Rightarrow> nat \<Rightarrow> jsval \<Rightarrow> jsobject \<Rightarrow> jsval list \<Rightarrow> nat
     \<Rightarrow> scanState \<Rightarrow> scanState" where
  "processCell E viewName data r dsid studentData eventHeaders infCol st =
     (let value = jsAt (data ! r) infCol in
      if \<not> truthy value \<or> value = Str [] then st
      else
        let infractionNum = jsAt (data ! 1) infCol;
            week = formatWeekDate E (Str (getWeekForInfractionCol E data infCol));
            key = cellKey E data dsid infCol;
            enteredBy = enteredByOf (getNoteAt (scWorld st) viewName (r + 1) (infCol + 1));
            eventCol = eventColOf E eventHeaders;
            eventSheet = (case getSheetByName (scWorld st) ''EventLog'' of
                            Some sh \<Rightarrow> sh | None \<Rightarrow> newSheet ''EventLog'')
        in
        (case scEventMap st key of
           Some (Suc k) \<Rightarrow>
             (let rowIdx = Suc k;
                  rowData = getValues eventSheet rowIdx 1 1 (length eventHeaders) ! 0;
                  existingValue = jsAtOpt rowData (eventCol ''Source Value'')
              in if \<not> strictEq existingValue value then
                   (case eventCol ''Source Value'' of
                      None \<Rightarrow> st\<lparr>scFault := Some (ErrorThrown ''getRange: the column is not a number'')\<rparr>
                    | Some i \<Rightarrow>
                        st\<lparr>scWorld := updateSheet ''EventLog'' (setValue rowIdx (i + 1) value) (scWorld st)\<rparr>)
                 else st)
         | _ \<Rightarrow>
             (let newEvents = scNewEvents st @
                    [[DateV (now E), dsid, objGet studentData ''Last Name'', objGet studentData ''First Name'',
                      objGet studentData ''Grade'', objGet studentData ''Team'', infractionNum, Str week,
                      Str enteredBy, Str viewName, value, Str (jsonStringify E studentData), Str []]]
              in st\<lparr>scNewEvents := newEvents,
                    scEventMap := (scEventMap st)(key \<mapsto> getLastRow eventSheet + length newEvents)\<rparr>)))"

definition processRow ::
  "env \<Rightarrow> string \<Rightarrow> jsval list list \<Rightarrow> jsval list list \<Rightarrow> jsval list \<Rightarrow> jsval list \<Rightarrow> nat
     \<Rightarrow> nat list \<Rightarrow> nat \<Rightarrow> scanState \<Rightarrow> scanState" where
  "processRow E viewName data students studentHeaders eventHeaders dsidIdx infractionCols r st =
     (let studentRow = data ! r;
          dsid = jsAt studentRow dsidIdx
      in if \<not> truthy dsid then st
         else
           forEachStep
             (processCell E viewName data r dsid
                (studentDataOf E students studentHeaders (data ! 2) studentRow dsid) eventHeaders)
             infractionCols st)"

definition processSheet ::
  "env \<Rightarrow> jsval list list \<Rightarrow> jsval list \<Rightarrow> jsval list \<Rightarrow> string \<Rightarrow> scanState \<Rightarrow> scanState" where
  "processSheet E students studentHeaders eventHeaders viewName st =
     (if viewName \<in> set EXCLUDE_SHEETS then st
      else
        (case getSheetByName (scWorld st) viewName of
           None \<Rightarrow> st
         | Some sheet \<Rightarrow>
             (let data = getDataRangeValues sheet in
              if length data < FIRST_STUDENT_ROW + 1 then st
              else
                (case indexOf (data ! 2) (Str ''DSID'') of
                   None \<Rightarrow> st
                 | Some dsidIdx \<Rightarrow>
                     (let infractionCols =
                            filter (\<lambda>c. toLowerCase (cellText E (jsAt (data ! 1) c)) \<in> set INFRACTION_SEQUENCE)
                                   [0..<length (data ! 2)]
                      in forEachStep
                           (processRow E viewName data students studentHeaders eventHeaders dsidIdx
                              infractionCols)
                           [FIRST_STUDENT_ROW..<length data] st)))))"

definition alert :: "env \<Rightarrow> string \<Rightarrow> world \<Rightarrow> world" where
  "alert E msg w = (if uiAvailable E then w\<lparr>uiMessages := uiMessages w @ [([], msg)]\<rparr> else w)"

text \<open>
  \<open>processNewEvents\<close>.  The result is the store after the run and the fault that ended
  it, if any.  The queued rows are written in one batch below the last row that
  holds content at that moment; \<open>setValues\<close> faults when the rows are not as wide as
  the range, which has the width of the header.
\<close>

definition processNewEvents :: "env \<Rightarrow> world \<Rightarrow> world \<times> fault option" where
  "processNewEvents E w0 =
     (let w1 = (if getSheetByName w0 ''EventLog'' = None
                then updateSheet ''EventLog'' (appendRow (map Str EVENT_LOG_HEADERS)) (insertSheet ''EventLog'' w0)
                else w0);
          eventSheet = (case getSheetByName w1 ''EventLog'' of Some sh \<Rightarrow> sh | None \<Rightarrow> newSheet ''EventLog'');
          logged = getDataRangeValues eventSheet;
          eventHeaders = logged ! 0;
          eventCol = eventColOf E eventHeaders;
          students = (case getSheetByName w1 ''StudentList'' of
                        Some sh \<Rightarrow> getDataRangeValues sh | None \<Rightarrow> []);
          studentHeaders = (case students of [] \<Rightarrow> [] | hs # _ \<Rightarrow> hs);
          st = forEachStep (processSheet E students studentHeaders eventHeaders) (map sheetName (sheets w1))
                 \<lparr>scWorld = w1, scEventMap = initialEventMap E eventCol logged, scNewEvents = [],
                  scFault = None\<rparr>
      in
      (case scFault st of
         Some f \<Rightarrow> (scWorld st, Some f)
       | None \<Rightarrow>
           if scNewEvents st = [] then
             (alert E (''Event log complete. 0 new events recorded.'') (scWorld st), None)
           else if length eventHeaders \<noteq> 13 then
             (scWorld st, Some (ErrorThrown ''setValues: the data does not match the range''))
           else
             (alert E (''Event log complete. '' @ showNat (length (scNewEvents st)) @ '' new events recorded.'')
                (updateSheet ''EventLog''
                   (\<lambda>sh. setRowsFrom (Suc (getLastRow sh)) (scNewEvents st) sh) (scWorld st)),
              None)))"

text \<open>The keys of the rows of a ledger sheet below its header, in row order.\<close>

definition ledgerKeys :: "env \<Rightarrow> sheet \<Rightarrow> string list" where
  "ledgerKeys E sh =
     (let logged = getDataRangeValues sh
      in map (\<lambda>i. ledgerRowKey E (eventColOf E (logged ! 0)) (logged ! i)) [1..<length logged])"

definition ledgerKeysOf :: "env \<Rightarrow> world \<Rightarrow> string list" where
  "ledgerKeysOf E w = (case getSheetByName w ''EventLog'' of None \<Rightarrow> [] | Some sh \<Rightarrow> ledgerKeys E sh)"

section \<open>The alert dispatcher\<close>

text \<open>\<open>source.split(search).join(replacement)\<close> for a search text that is not empty.\<close>

function replaceAllTokens :: "string \<Rightarrow> string \<Rightarrow> string \<Rightarrow> string" where
  "replaceAllTokens [] search replacement = []"
| "replaceAllTokens (c # cs) search replacement =
     (if search \<noteq> [] \<and> take (length search) (c # cs) = search
      then replacement @ replaceAllTokens (drop (length search) (c # cs)) search replacement
      else c # replaceAllTokens cs search replacement)"
  by pat_completeness auto
termination
  by (relation "measure (\<lambda>(s, _, _). length s)") auto

fun splitOn :: "char \<Rightarrow> string \<Rightarrow> string list" where
  "splitOn sep [] = [[]]"
| "splitOn sep (c # cs) =
     (if c = sep then [] # splitOn sep cs
      else (case splitOn sep cs of [] \<Rightarrow> [[c]] | x # xs \<Rightarrow> (c # x) # xs))"

definition isLetter :: "char \<Rightarrow> bool" where
  "isLetter c = (c \<in> set ''ABCDEFGHIJKLMNOPQRSTUVWXYZabcdefghijklmnopqrstuvwxyz'')"

definition isDigit :: "char \<Rightarrow> bool" where
  "isDigit c = (c \<in> set ''0123456789'')"

text \<open>A match of \<open>[A-Za-z]{3} \\d{1,2}, \\d{4}\<close> at the start of the text.\<close>

definition weekTokenAt :: "string \<Rightarrow> string option" where
  "weekTokenAt s =
     (let tailOk = (\<lambda>t. take 2 t = '', '' \<and> 4 \<le> length (drop 2 t) \<and> list_all isDigit (take 4 (drop 2 t)));
          r = drop 4 s
      in if 4 \<le> length s \<and> list_all isLetter (take 3 s) \<and> s ! 3 = CHR '' '' then
           (if 2 \<le> length r \<and> list_all isDigit (take 2 r) \<and> tailOk (drop 2 r) then Some (take 12 s)
            else if 1 \<le> length r \<and> isDigit (r ! 0) \<and> tailOk (drop 1 r) then Some (take 11 s)
            else None)
         else None)"

fun findWeekToken :: "string \<Rightarrow> string option" where
  "findWeekToken [] = None"
| "findWeekToken (c # cs) =
     (case weekTokenAt (c # cs) of Some t \<Rightarrow> Some t | None \<Rightarrow> findWeekToken cs)"

text \<open>\<open>normalizeWeekStr\<close>: the canonical \<open>Mon D, YYYY\<close> form of a week label.\<close>

definition normalizeWeekStr :: "env \<Rightarrow> jsval \<Rightarrow> string" where
  "normalizeWeekStr E weekStr =
     (if \<not> truthy weekStr then []
      else
        (case weekStr of
           DateV t \<Rightarrow> formatYMD (dateYMD E t)
         | _ \<Rightarrow>
            (let str = toString E weekStr in
             case findWeekToken str of
               Some m \<Rightarrow> m
             | None \<Rightarrow> (case dateParse E str of Some t \<Rightarrow> formatYMD (dateYMD E t) | None \<Rightarrow> str))))"

text \<open>The run of the alert scan: the store, the count of mails sent, and the fault that ended it.\<close>

record alertState =
  asWorld :: world
  asSent :: nat
  asFault :: "fault option"

fun forEachEvent :: "('a \<Rightarrow> alertState \<Rightarrow> alertState) \<Rightarrow> 'a list \<Rightarrow> alertState \<Rightarrow> alertState" where
  "forEachEvent f [] st = st"
| "forEachEvent f (x # xs) st = (if asFault st \<noteq> None then st else forEachEvent f xs (f x st))"

text \<open>The active week label of every view, normalized; a view without one has no entry.\<close>

fun teamActiveWeeksOf :: "env \<Rightarrow> sheet list \<Rightarrow> fault + (string \<Rightarrow> string option)" where
  "teamActiveWeeksOf E [] = Inr Map.empty"
| "teamActiveWeeksOf E (sh # shs) =
     (if sheetName sh \<in> set EXCLUDE_SHEETS then teamActiveWeeksOf E shs
      else
        (case getActiveWeekForSheet E sh of
           Inl err \<Rightarrow> Inl err
         | Inr activeWeekRaw \<Rightarrow>
             (let activeWeek = normalizeWeekStr E (case activeWeekRaw of None \<Rightarrow> Null | Some s \<Rightarrow> Str s) in
              case teamActiveWeeksOf E shs of
                Inl err \<Rightarrow> Inl err
              | Inr m \<Rightarrow> Inr (if activeWeek \<noteq> [] \<and> m (sheetName sh) = None
                               then m(sheetName sh \<mapsto> activeWeek) else m))))"

record template =
  subject :: jsval
  body :: jsval
  mergeFields :: "string list"

definition fieldToRowOf :: "env \<Rightarrow> jsval list list \<Rightarrow> string \<Rightarrow> nat option" where
  "fieldToRowOf E values =
     foldl (\<lambda>m r. m(toString E (jsAt (values ! r) 0) \<mapsto> r)) Map.empty [0..<length values]"

definition getTemplateByName :: "env \<Rightarrow> sheet \<Rightarrow> string \<Rightarrow> fault + template" where
  "getTemplateByName E templateSheet templateName =
     (let values = getDataRangeValues templateSheet in
      case indexOf (values ! 0) (Str templateName) of
        None \<Rightarrow> Inl (ErrorThrown (''Template not found: '' @ templateName))
      | Some colIndex \<Rightarrow>
          (let fieldToRow = fieldToRowOf E values;
               mergeObj =
                 (case fieldToRow ''Merge Fields'' of
                    None \<Rightarrow> []
                  | Some r \<Rightarrow>
                      filter (\<lambda>s. s \<noteq> [])
                        (map (\<lambda>s. trim (filter (\<lambda>c. c \<noteq> CHR ''{'' \<and> c \<noteq> CHR ''}'') s))
                           (splitOn CHR '','' (let v = jsAt (values ! r) colIndex
                                               in if truthy v then toString E v else []))))
           in case (fieldToRow ''Subject'', fieldToRow ''Email Body'') of
                (Some rs, Some rb) \<Rightarrow>
                  Inr \<lparr>subject = jsAt (values ! rs) colIndex, body = jsAt (values ! rb) colIndex,
                       mergeFields = mergeObj\<rparr>
              | _ \<Rightarrow> Inl (TypeError ''Cannot read properties of undefined'')))"

text \<open>
  The header row of the responder table of the \<open>Variables\<close> sheet: the scan keeps
  the row and column of the last \<open>Email\<close> cell and the column of the last \<open>Role\<close>
  cell it has seen, and stops after the first row at whose end it has all three.
\<close>

fun scanResponderRow ::
  "env \<Rightarrow> jsval list \<Rightarrow> nat \<Rightarrow> nat list \<Rightarrow> nat option \<times> nat option \<times> nat option
     \<Rightarrow> nat option \<times> nat option \<times> nat option" where
  "scanResponderRow E row r [] acc = acc"
| "scanResponderRow E row r (c # cs) (hr, ec, rc) =
     (let v = jsAt row c;
          (hr1, ec1) = (if truthy v \<and> trim (toString E v) = ''Email'' then (Some r, Some c) else (hr, ec));
          rc1 = (if truthy v \<and> trim (toString E v) = ''Role'' then Some c else rc)
      in scanResponderRow E row r cs (hr1, ec1, rc1))"

fun scanResponderHeader ::
  "env \<Rightarrow> jsval list list \<Rightarrow> nat list \<Rightarrow> nat option \<times> nat option \<times> nat option
     \<Rightarrow> nat option \<times> nat option \<times> nat option" where
  "scanResponderHeader E values [] acc = acc"
| "scanResponderHeader E values (r # rs) acc =
     (case scanResponderRow E (values ! r) r [0..<length (values ! r)] acc of
        (Some hr, Some ec, Some rc) \<Rightarrow> (Some hr, Some ec, Some rc)
      | acc' \<Rightarrow> scanResponderHeader E values rs acc')"

fun dedupeFirst :: "string list \<Rightarrow> string list \<Rightarrow> string list" where
  "dedupeFirst seen [] = []"
| "dedupeFirst seen (e # es) =
     (if e \<noteq> [] \<and> e \<notin> set seen then e # dedupeFirst (e # seen) es else dedupeFirst (e # seen) es)"

definition quoted :: "string \<Rightarrow> string" where
  "quoted s = CHR 0x22 # s @ [CHR 0x22]"

text \<open>
  \<open>getAlertRecipients\<close> reads the \<open>Variables\<close> sheet once and computes from its
  values the team leader's address, the addresses of the primary responders and the
  list of both.  \<open>teamName.toString()\<close> is a type error for an undefined or null team
  name; it is evaluated at the first row that names a team.
\<close>

definition recipientsFrom :: "env \<Rightarrow> jsval list list \<Rightarrow> jsval \<Rightarrow> fault + (string \<times> string list \<times> string list)" where
  "recipientsFrom E values teamName =
     (let cellTrim = (\<lambda>r c. let v = jsAt (values ! r) c in if truthy v then trim (toString E v) else []);
          teamRows = filter (\<lambda>i. toLowerCase (cellTrim i 1) \<noteq> []) [1..<length values]
      in if teamRows \<noteq> [] \<and> (teamName = Undefined \<or> teamName = Null)
         then Inl (TypeError ''Cannot read properties of undefined (reading toString)'')
         else
           (let teamLeaderEmail =
                  (case find (\<lambda>i. toLowerCase (cellTrim i 1) = toLowerCase (trim (toString E teamName)))
                             teamRows of
                     None \<Rightarrow> []
                   | Some i \<Rightarrow> cellTrim i 2);
                primaryResponderEmails =
                  (case scanResponderHeader E values [0..<length values] (None, None, None) of
                     (Some srHeaderRow, Some srEmailCol, Some srRoleCol) \<Rightarrow>
                       map (\<lambda>r. cellTrim r srEmailCol)
                         (filter (\<lambda>r. cellTrim r srRoleCol = ''Primary Responder''
                                       \<and> CHR ''@'' \<in> set (cellTrim r srEmailCol))
                            [srHeaderRow + 1..<length values])
                   | _ \<Rightarrow> []);
                allEmails = primaryResponderEmails
                              @ (if teamLeaderEmail \<noteq> [] \<and> teamLeaderEmail \<notin> set primaryResponderEmails
                                 then [teamLeaderEmail] else [])
            in Inr (teamLeaderEmail, primaryResponderEmails, allEmails)))"

definition getAlertRecipients :: "env \<Rightarrow> string \<Rightarrow> jsval \<Rightarrow> world \<Rightarrow> fault + (string list \<times> world)" where
  "getAlertRecipients E variablesName teamName w =
     (case recipientsFrom E
             (case getSheetByName w variablesName of Some sh \<Rightarrow> getDataRangeValues sh | None \<Rightarrow> [])
             teamName of
        Inl err \<Rightarrow> Inl err
      | Inr (teamLeaderEmail, primaryResponderEmails, allEmails) \<Rightarrow>
          Inr (dedupeFirst [] allEmails,
               debugLog E (''getAlertRecipients: ALL recipients: '' @ joinWith '', '' allEmails)
                 (debugLog E (''getAlertRecipients: Primary Responders: ''
                               @ joinWith '', '' primaryResponderEmails)
                    (debugLog E (''getAlertRecipients: Team: '' @ quoted (toString E teamName)
                                  @ '' - Team Leader: '' @ quoted teamLeaderEmail) w))))"

text \<open>\<open>String(x ?? '')\<close>.\<close>

definition stringOrEmpty :: "env \<Rightarrow> jsval \<Rightarrow> string" where
  "stringOrEmpty E v = (case v of Undefined \<Rightarrow> [] | Null \<Rightarrow> [] | _ \<Rightarrow> toString E v)"

definition buildPrefillLink :: "env \<Rightarrow> jsobject \<Rightarrow> string" where
  "buildPrefillLink E mergeObj =
     ''https://docs.google.com/forms/d/e/1FAIpQLScIuVFw1ZAI32ewW0BomMHK7bltqkKPyK5Wy37KOr46A0_8gA/viewform?usp=pp_url''
       @ ''&entry.1580995247=''
       @ encodeURIComponent E (toString E (objGet mergeObj ''First Name'') @ '' '' @ toString E (objGet mergeObj ''Last Name''))
       @ ''&entry.806184538='' @ encodeURIComponent E (stringOrEmpty E (objGet mergeObj ''DSID''))
       @ ''&entry.778985363='' @ encodeURIComponent E (stringOrEmpty E (objGet mergeObj ''Grade''))
       @ ''&entry.2029453213='' @ encodeURIComponent E (stringOrEmpty E (objGet mergeObj ''Team''))
       @ ''&entry.1429204745='' @ encodeURIComponent E (stringOrEmpty E (objGet mergeObj ''Week''))"

text \<open>
  The literal substitution of the placeholders \<open>{{key}}\<close>, key by key, in subject and
  body; a subject or body that is not a string has no \<open>split\<close> method.
\<close>

fun expandTemplate :: "env \<Rightarrow> jsobject \<Rightarrow> string list \<Rightarrow> jsval \<times> jsval \<Rightarrow> fault + (jsval \<times> jsval)" where
  "expandTemplate E mergeObj [] sb = Inr sb"
| "expandTemplate E mergeObj (k # ks) (s, b) =
     (case (s, b) of
        (Str emailSubject, Str emailBody) \<Rightarrow>
          (let replacement = stringOrEmpty E (objGet mergeObj k)
           in expandTemplate E mergeObj ks
                (Str (replaceAllTokens emailSubject (''{{'' @ k @ ''}}'') replacement),
                 Str (replaceAllTokens emailBody (''{{'' @ k @ ''}}'') replacement)))
      | _ \<Rightarrow> Inl (TypeError ''source.split is not a function''))"

definition emailLogEntry ::
  "env \<Rightarrow> jsval list \<Rightarrow> jsval list \<Rightarrow> jsval list \<Rightarrow> string \<Rightarrow> string \<Rightarrow> string \<Rightarrow> jsval list" where
  "emailLogEntry E logHeaders headers event week summary recipients =
     map (\<lambda>h. if strictEq h (Str ''Timestamp'') then DateV (now E)
               else if strictEq h (Str ''DSID'') then jsAtOpt event (indexOf headers (Str ''DSID''))
               else if strictEq h (Str ''Last Name'') then jsAtOpt event (indexOf headers (Str ''Last Name''))
               else if strictEq h (Str ''First Name'') then jsAtOpt event (indexOf headers (Str ''First Name''))
               else if strictEq h (Str ''Grade'') then jsAtOpt event (indexOf headers (Str ''Grade''))
               else if strictEq h (Str ''Team'') then jsAtOpt event (indexOf headers (Str ''Team''))
               else if strictEq h (Str ''Infraction'') then jsAtOpt event (indexOf headers (Str ''Infraction''))
               else if strictEq h (Str ''Week'') then Str week
               else if strictEq h (Str ''Sheet Name'') then jsAtOpt event (indexOf headers (Str ''Sheet Name''))
               else if strictEq h (Str ''Entered By'') then jsAtOpt event (indexOf headers (Str ''Entered By''))
               else if strictEq h (Str ''Body'') then Str summary
               else if strictEq h (Str ''Recipients'') then Str recipients
               else Str [])
       logHeaders"

text \<open>
  \<open>MailApp.sendEmail\<close> inside its \<open>try\<close>: the call is recorded in the outbox; when the
  mail service faults, the fault is caught and logged, otherwise the mail counts as
  sent.
\<close>

definition sendAlert :: "env \<Rightarrow> nat \<Rightarrow> string list \<Rightarrow> string \<Rightarrow> string \<Rightarrow> alertState \<Rightarrow> alertState" where
  "sendAlert E i recipientEmails emailSubject emailBody st =
     (let w1 = (asWorld st)\<lparr>outbox := outbox (asWorld st)
                  @ [\<lparr>mailTo = joinWith '','' recipientEmails, mailSubject = emailSubject,
                      mailBody = emailBody\<rparr>]\<rparr>
      in case mailFaults E (joinWith '','' recipientEmails) emailSubject emailBody of
           None \<Rightarrow>
             st\<lparr>asWorld := debugLog E (''Row '' @ showNat (i + 1) @ '': Email sent to: ''
                                        @ joinWith '', '' recipientEmails @ '' | Subject: '' @ emailSubject) w1,
                asSent := asSent st + 1\<rparr>
         | Some e \<Rightarrow>
             st\<lparr>asWorld := debugLog E (''Row '' @ showNat (i + 1) @ '': ERROR sending email: '' @ e) w1\<rparr>)"

text \<open>
  After the three skip tests, one loop iteration first prepares the mail: the counts,
  the template, the identity snapshot, the merge fields, the recipients, and subject
  and body with the placeholders replaced.
\<close>

definition eventField :: "jsval list list \<Rightarrow> nat \<Rightarrow> string \<Rightarrow> jsval" where
  "eventField events i name = jsAtOpt (events ! i) (indexOf (events ! 0) (Str name))"

definition repeatCountOf :: "jsval list list \<Rightarrow> nat \<Rightarrow> nat" where
  "repeatCountOf events i =
     length (filter (\<lambda>ev. strictEq (jsAtOpt ev (indexOf (events ! 0) (Str ''DSID''))) (eventField events i ''DSID'')
                          \<and> strictEq (jsAtOpt ev (indexOf (events ! 0) (Str ''Infraction''))) (Str ''5th''))
               events)"

definition totalInfractionsOf :: "jsval list list \<Rightarrow> nat \<Rightarrow> nat" where
  "totalInfractionsOf events i =
     length (filter (\<lambda>ev. strictEq (jsAtOpt ev (indexOf (events ! 0) (Str ''DSID''))) (eventField events i ''DSID''))
               events)"

text \<open>The stored identity snapshot, parsed; \<open>None\<close> when \<open>JSON.parse\<close> throws.\<close>

definition studentOfEvent :: "env \<Rightarrow> jsval list list \<Rightarrow> nat \<Rightarrow> jsobject option" where
  "studentOfEvent E events i =
     (case eventField events i ''All Student Data'' of
        Str s \<Rightarrow> if trim s \<noteq> [] then jsonParseObject E s else Some []
      | _ \<Rightarrow> Some [])"

text \<open>
  The merge fields: the object literal of the eleven event fields with the snapshot
  spread over it last, so that a field of the snapshot replaces the event's.
\<close>

definition baseMergeFields :: "env \<Rightarrow> jsval list list \<Rightarrow> nat \<Rightarrow> string \<Rightarrow> jsobject \<Rightarrow> jsobject" where
  "baseMergeFields E events i week student =
     foldl (\<lambda>obj kv. objSet (fst kv) (snd kv) obj)
       [(''DSID'', eventField events i ''DSID''), (''Last Name'', eventField events i ''Last Name''),
        (''First Name'', eventField events i ''First Name''), (''Grade'', eventField events i ''Grade''),
        (''Team'', eventField events i ''Team''), (''Infraction'', eventField events i ''Infraction''),
        (''Week'', Str week), (''Sheet Name'', eventField events i ''Sheet Name''),
        (''Entered By'', eventField events i ''Entered By''),
        (''Repeat Count'', Num (int (repeatCountOf events i))),
        (''Total Infractions'', Num (int (totalInfractionsOf events i)))]
       student"

type_synonym alertMail = "string list \<times> string \<times> string \<times> jsobject"

definition composeMail :: "env \<Rightarrow> template \<Rightarrow> string list \<Rightarrow> jsobject \<Rightarrow> fault + alertMail" where
  "composeMail E tpl recipientEmails merge0 =
     (let mergeObj = objSet ''Recipients'' (Str (joinWith '', '' recipientEmails)) merge0 in
      case expandTemplate E mergeObj
             (if mergeFields tpl \<noteq> [] then mergeFields tpl else map fst mergeObj)
             (subject tpl, body tpl) of
        Inl err \<Rightarrow> Inl err
      | Inr (s, b) \<Rightarrow>
          Inr (recipientEmails, toString E s,
               ''<b>This alert has been sent to:</b> <br>''
                 @ joinWith '', '' recipientEmails @ ''<br><br>'' @ toString E b
                 @ ''<br><b>Counselor follow-up required:</b> <a href='' @ quoted (buildPrefillLink E mergeObj)
                 @ '' target='' @ quoted ''_blank'' @ ''>Click here to confirm student meeting</a><br>''
                 @ [CHR 0x0A]
                 @ '' <span style='' @ quoted ''color:#B22222;''
                 @ ''><b>Do NOT enter counseling notes or sensitive info here''
                 @ [CHR 0xE2, CHR 0x80, CHR 0x94]
                 @ ''this is for process tracking only.</b></span><br>'',
               mergeObj))"

text \<open>
  The result of the preparation is the store (the diagnostic lines are written as
  the code writes them) and either the fault that ended it or the recipients, the
  subject, the body and the merge fields.
\<close>

definition prepareAlert ::
  "env \<Rightarrow> jsval list list \<Rightarrow> bool \<Rightarrow> nat \<Rightarrow> string \<Rightarrow> world \<Rightarrow> world \<times> (fault + alertMail)" where
  "prepareAlert E events hasVariables i week w =
     (case getTemplateByName E
             (case getSheetByName w ''Templates'' of Some sh \<Rightarrow> sh | None \<Rightarrow> newSheet ''Templates'')
             ''5th Infraction Notice'' of
        Inl err \<Rightarrow> (w, Inl err)
      | Inr tpl \<Rightarrow>
          (let parsed = studentOfEvent E events i;
               w1 = (case parsed of
                       None \<Rightarrow> debugLog E (''Row '' @ showNat (i + 1) @ '': ERROR parsing student data'') w
                     | Some _ \<Rightarrow> w);
               merge0 = baseMergeFields E events i week (case parsed of None \<Rightarrow> [] | Some obj \<Rightarrow> obj)
           in case (if hasVariables then getAlertRecipients E ''Variables'' (objGet merge0 ''Team'') w1
                    else Inr ([], w1)) of
                Inl err \<Rightarrow> (w1, Inl err)
              | Inr (recipientEmails, w2) \<Rightarrow> (w2, composeMail E tpl recipientEmails merge0)))"

text \<open>
  Then it delivers: one mail if there are recipients, the alert marker, and the
  line of the audit log if the \<open>EmailLog\<close> sheet exists.
\<close>

definition alertSummary :: "env \<Rightarrow> jsval list list \<Rightarrow> nat \<Rightarrow> jsobject \<Rightarrow> string list \<Rightarrow> string" where
  "alertSummary E events i mergeObj recipientEmails =
     ''ALERT: '' @ toString E (objGet mergeObj ''First Name'') @ '' ''
      @ toString E (objGet mergeObj ''Last Name'') @ '' (Grade ''
      @ toString E (objGet mergeObj ''Grade'') @ '', ''
      @ toString E (objGet mergeObj ''Team'') @ '') | 5th infraction for ''
      @ toString E (objGet mergeObj ''Week'') @ '' | Repeats: ''
      @ showNat (repeatCountOf events i) @ '', Total: '' @ showNat (totalInfractionsOf events i)
      @ '' | Recipients: '' @ joinWith '', '' recipientEmails"

definition deliverAlert ::
  "env \<Rightarrow> jsval list list \<Rightarrow> bool \<Rightarrow> nat \<Rightarrow> string \<Rightarrow> alertMail \<Rightarrow> alertState \<Rightarrow> alertState" where
  "deliverAlert E events hasLog i week m st =
     (case m of (recipientEmails, emailSubject, emailBody, mergeObj) \<Rightarrow>
        (let st1 = (if recipientEmails \<noteq> [] then sendAlert E i recipientEmails emailSubject emailBody st else st)
         in case indexOf (events ! 0) (Str ''Alerted'') of
              None \<Rightarrow> st1\<lparr>asFault := Some (ErrorThrown ''getRange: column 0 is out of range'')\<rparr>
            | Some a \<Rightarrow>
                (let w3 = updateSheet ''EventLog'' (setValue (i + 1) (a + 1) (DateV (now E))) (asWorld st1)
                 in if \<not> hasLog then st1\<lparr>asWorld := w3\<rparr>
                    else
                      (let logHeaders =
                             (case getSheetByName w3 ''EmailLog'' of
                                Some sh \<Rightarrow> getDataRangeValues sh ! 0 | None \<Rightarrow> []);
                           w4 = updateSheet ''EmailLog''
                                  (appendRow (emailLogEntry E logHeaders (events ! 0) (events ! i) week
                                                (alertSummary E events i mergeObj recipientEmails)
                                                (joinWith '', '' recipientEmails))) w3
                       in st1\<lparr>asWorld := debugLog E (''Row '' @ showNat (i + 1)
                                                     @ '': Logged in EmailLog.'') w4\<rparr>))))"

definition dispatchAlert ::
  "env \<Rightarrow> jsval list list \<Rightarrow> bool \<Rightarrow> bool \<Rightarrow> bool \<Rightarrow> nat \<Rightarrow> string \<Rightarrow> alertState \<Rightarrow> alertState" where
  "dispatchAlert E events hasLog hasTemplates hasVariables i week st =
     (if \<not> hasTemplates then
        st\<lparr>asWorld := debugLog E ''scanAndSendAlerts: Templates sheet not found.'' (asWorld st)\<rparr>
      else
        (case prepareAlert E events hasVariables i week (asWorld st) of
           (w, Inl err) \<Rightarrow> st\<lparr>asWorld := w, asFault := Some err\<rparr>
         | (w, Inr m) \<Rightarrow> deliverAlert E events hasLog i week m (st\<lparr>asWorld := w\<rparr>)))"

text \<open>One iteration of the loop over the ledger rows.\<close>

definition alertStep ::
  "env \<Rightarrow> jsval list list \<Rightarrow> (string \<Rightarrow> string option) \<Rightarrow> bool \<Rightarrow> bool \<Rightarrow> bool \<Rightarrow> nat
     \<Rightarrow> alertState \<Rightarrow> alertState" where
  "alertStep E events teamActiveWeeks hasLog hasTemplates hasVariables i st =
     (let dsid = eventField events i ''DSID'';
          infraction = eventField events i ''Infraction'';
          weekRaw = eventField events i ''Week'';
          week = normalizeWeekStr E weekRaw;
          sheetNameV = eventField events i ''Sheet Name'';
          alerted = eventField events i ''Alerted'';
          st1 = st\<lparr>asWorld := debugLog E
                   (''Row '' @ showNat (i + 1) @ '' | DSID: '' @ toString E dsid @ '' | Infraction: ''
                     @ toString E infraction @ '' | Week: '' @ toString E weekRaw @ '' (normalized: '' @ week
                     @ '') | Sheet: '' @ toString E sheetNameV @ '' | Alerted: ''
                     @ (if truthy alerted then ''true'' else ''false''))
                   (asWorld st)\<rparr>
      in if \<not> strictEq infraction (Str ''5th'') then st1
         else if truthy alerted then st1
         else
           (case teamActiveWeeks (toString E sheetNameV) of
              Some activeWeek \<Rightarrow>
                if activeWeek \<noteq> [] \<and> week = activeWeek
                then dispatchAlert E events hasLog hasTemplates hasVariables i week st1
                else st1\<lparr>asWorld := debugLog E (''Row '' @ showNat (i + 1) @ '': SKIP, activeWeek='' @ [CHR 0x27]
                                                @ activeWeek @ [CHR 0x27] @ '', eventWeek='' @ [CHR 0x27] @ week
                                                @ [CHR 0x27]) (asWorld st1)\<rparr>
            | None \<Rightarrow>
                st1\<lparr>asWorld := debugLog E (''Row '' @ showNat (i + 1) @ '': SKIP, activeWeek='' @ [CHR 0x27]
                                           @ ''undefined'' @ [CHR 0x27] @ '', eventWeek='' @ [CHR 0x27] @ week
                                           @ [CHR 0x27]) (asWorld st1)\<rparr>))"

definition scanAndSendAlerts :: "env \<Rightarrow> world \<Rightarrow> world \<times> fault option" where
  "scanAndSendAlerts E w =
     (case getSheetByName w ''EventLog'' of
        None \<Rightarrow> (debugLog E ''No EventLog sheet found, aborting scanAndSendAlerts.'' w, None)
      | Some eventSheet \<Rightarrow>
          (let events = getDataRangeValues eventSheet;
               hasLog = (getSheetByName w ''EmailLog'' \<noteq> None);
               hasTemplates = (getSheetByName w ''Templates'' \<noteq> None);
               hasVariables = (getSheetByName w ''Variables'' \<noteq> None);
               w1 = debugLog E (''Starting scanAndSendAlerts. Total events: '' @ showNat (length events - 1)) w
           in case teamActiveWeeksOf E (sheets w1) of
                Inl err \<Rightarrow> (w1, Some err)
              | Inr teamActiveWeeks \<Rightarrow>
                  (let st = forEachEvent (alertStep E events teamActiveWeeks hasLog hasTemplates hasVariables)
                              [1..<length events] \<lparr>asWorld = w1, asSent = 0, asFault = None\<rparr>
                   in case asFault st of
                        Some f \<Rightarrow> (asWorld st, Some f)
                      | None \<Rightarrow>
                          (alert E (''Scan complete. '' @ showNat (asSent st) @ '' new alerts sent.'')
                             (debugLog E (''scanAndSendAlerts: Completed. '' @ showNat (asSent st) @ '' alerts sent.'')
                                (asWorld st)),
                           None))))"

text \<open>
  Vocabulary for the properties of the scan.  An event qualifies when it passes the
  three skip tests: terminal rank, empty alert marker, and a normalized week label
  equal to the normalized active week label of its view.  Two stores are the same
  but for the diagnostics when they differ at most in the \<open>DebugLog\<close> sheet and the
  execution log.
\<close>

definition eventQualifies :: "env \<Rightarrow> jsval list list \<Rightarrow> (string \<Rightarrow> string option) \<Rightarrow> nat \<Rightarrow> bool" where
  "eventQualifies E events teamActiveWeeks i =
     (strictEq (eventField events i ''Infraction'') (Str ''5th'')
      \<and> \<not> truthy (eventField events i ''Alerted'')
      \<and> (case teamActiveWeeks (toString E (eventField events i ''Sheet Name'')) of
            None \<Rightarrow> False
          | Some activeWeek \<Rightarrow>
              activeWeek \<noteq> [] \<and> normalizeWeekStr E (eventField events i ''Week'') = activeWeek))"

text \<open>The recipient list an event's team resolves to on the \<open>Variables\<close> sheet of a store.\<close>

definition resolvedRecipients :: "env \<Rightarrow> world \<Rightarrow> bool \<Rightarrow> jsval \<Rightarrow> fault + string list" where
  "resolvedRecipients E w hasVariables teamName =
     (if hasVariables then
        (case recipientsFrom E
                (case getSheetByName w ''Variables'' of Some sh \<Rightarrow> getDataRangeValues sh | None \<Rightarrow> [])
                teamName of
           Inl err \<Rightarrow> Inl err
         | Inr (teamLeaderEmail, primaryResponderEmails, allEmails) \<Rightarrow> Inr (dedupeFirst [] allEmails))
      else Inr [])"

definition eventWeek :: "env \<Rightarrow> jsval list list \<Rightarrow> nat \<Rightarrow> string" where
  "eventWeek E events i = normalizeWeekStr E (eventField events i ''Week'')"

definition unchangedButLog :: "world \<Rightarrow> world \<Rightarrow> bool" where
  "unchangedButLog w w' =
     ((\<forall>n. n \<noteq> ''DebugLog'' \<longrightarrow> getSheetByName w' n = getSheetByName w n)
      \<and> documentProperties w' = documentProperties w \<and> userProperties w' = userProperties w
      \<and> outbox w' = outbox w \<and> uiMessages w' = uiMessages w)"









section \<open>Example data\<close>

text \<open>Concrete sheets are given as rows of cells; everything outside the rows is empty.\<close>

definition gridCells :: "jsval list list \<Rightarrow> nat \<Rightarrow> nat \<Rightarrow> jsval" where
  "gridCells g r c =
     (if 0 < r \<and> r \<le> length g \<and> 0 < c \<and> c \<le> length (g ! (r - 1)) then g ! (r - 1) ! (c - 1)
      else blankCell)"

definition sheetOf :: "string \<Rightarrow> nat \<Rightarrow> nat \<Rightarrow> jsval list list \<Rightarrow> sheet" where
  "sheetOf n rows cols g =
     \<lparr>sheetName = n, cells = gridCells g, cellNotes = (\<lambda>r c. []), maxRows = rows, maxColumns = cols,
      hidden = False\<rparr>"

definition demoEnv :: env where
  "demoEnv =
     \<lparr>now = 0, dateToString = (\<lambda>t. ''Mon Sep 01 2025 08:00:00 GMT+0000 (UTC)''),
      dateToLocaleString = (\<lambda>t. ''9/1/2025, 8:00:00 AM''),
      dateToISOString = (\<lambda>t. ''2025-09-01T08:00:00.000Z''),
      dateParse = (\<lambda>s. if s = ''Sep 1, 2025'' \<or> s = ''Week of Sep 1, 2025'' then Some 0 else None),
      dateYMD = (\<lambda>t. (2025, 8, 1)), todayStr = ''2025-09-01'', uiAvailable = False,
      mailFaults = (\<lambda>a b c. None), jsonParseObject = (\<lambda>s. None), jsonStringify = (\<lambda>kv. ''{}''),
      encodeURIComponent = (\<lambda>s. s), localeCompare = (\<lambda>a b. 0)\<rparr>"

text \<open>
  The view of team Falcons: a past week in columns 5 to 9, the active week
  (\<open>Sep 1, 2025\<close>) in columns 10 to 14, and one student in row 4.  The arguments
  are the marker cell above column 10 and the student's five cells of the active
  week.
\<close>

definition falconsGrid :: "jsval \<Rightarrow> jsval list \<Rightarrow> jsval list list" where
  "falconsGrid marker ranks =
    [[Str [], Str [], Str [], Str ''Falcons'', Str [], Str [], Str [], Str [], Str ''Aug 25, 2025'',
      marker, Str [], Str [], Str [], Str ''Sep 1, 2025''],
     [Str [], Str [], Str [], Str [], Str ''1st'', Str ''2nd'', Str ''3rd'', Str ''4th'', Str ''5th'',
      Str ''1st'', Str ''2nd'', Str ''3rd'', Str ''4th'', Str ''5th''],
     [Str ''Needs Email'', Str ''DSID'', Str ''Last Name'', Str ''First Name''],
     [Str [], Str ''S1'', Str ''Doe'', Str ''Jane'', Str ''X'', Str [], Str [], Str [], Str []] @ ranks]"

definition falconsSheet :: "jsval \<Rightarrow> jsval list \<Rightarrow> sheet" where
  "falconsSheet marker ranks = sheetOf ''Falcons'' 6 14 (falconsGrid marker ranks)"

definition falconsWorld :: "jsval \<Rightarrow> jsval list \<Rightarrow> string option \<Rightarrow> world" where
  "falconsWorld marker ranks email =
     \<lparr>sheets = [falconsSheet marker ranks], documentProperties = (\<lambda>k. None),
      userProperties = (\<lambda>k. if k = ''bssUserEmail'' then email else None),
      outbox = [], uiMessages = [], loggerLog = []\<rparr>"

definition editAt :: "nat \<Rightarrow> jsval option \<Rightarrow> jsval option \<Rightarrow> editEvent" where
  "editAt col v old = \<lparr>evSheet = ''Falcons'', evRow = 4, evCol = col, evValue = v, evOldValue = old\<rparr>"




text \<open>
  The view of team Hawks, one week in columns 2 to 6, with the subject \<open>S1\<close> on two
  rows; an empty ledger; a ledger that holds the event of \<open>S1\<close>, first rank.
\<close>

definition hawksSheet :: "jsval \<Rightarrow> jsval list \<Rightarrow> sheet" where
  "hawksSheet first secondRow = sheetOf ''Hawks'' 6 6
     [[Str ''Active'', Str [], Str [], Str [], Str [], Str ''Sep 1, 2025''],
      [Str [], Str ''1st'', Str ''2nd'', Str ''3rd'', Str ''4th'', Str ''5th''],
      [Str ''DSID'', Str [], Str [], Str [], Str [], Str []],
      [Str ''S1'', first, Str ''X'', Str [], Str [], Str []],
      secondRow]"

definition emptyLedger :: sheet where
  "emptyLedger = sheetOf ''EventLog'' 8 13 [map Str EVENT_LOG_HEADERS]"

definition ledgerOne :: sheet where
  "ledgerOne = sheetOf ''EventLog'' 8 13
     [map Str EVENT_LOG_HEADERS,
      [DateV 0, Str ''S1'', Str ''Doe'', Str ''Jane'', Num 7, Str ''Hawks'', Str ''1st'', Str ''Sep 1, 2025'',
       Str ''t@x.org'', Str ''Hawks'', Str ''X'', Str ''snapshot of S1'', Str []]]"

definition storeOf :: "sheet list \<Rightarrow> world" where
  "storeOf shs =
     \<lparr>sheets = shs, documentProperties = (\<lambda>k. None), userProperties = (\<lambda>k. None), outbox = [],
      uiMessages = [], loggerLog = []\<rparr>"

definition hawksDuplicateWorld :: world where
  "hawksDuplicateWorld =
     storeOf [emptyLedger, hawksSheet (Str ''X'') [Str ''S1'', Str [], Str ''X'', Str [], Str [], Str []]]"

definition hawksChangedWorld :: world where
  "hawksChangedWorld = storeOf [ledgerOne, hawksSheet (Str ''Y'') []]"

definition hawksChangedState :: scanState where
  "hawksChangedState =
     \<lparr>scWorld = hawksChangedWorld,
      scEventMap = initialEventMap demoEnv (eventColOf demoEnv (map Str EVENT_LOG_HEADERS))
                     (getDataRangeValues ledgerOne),
      scNewEvents = [], scFault = None\<rparr>"

text \<open>
  The data range of the view in \<open>hawksDuplicateWorld\<close>, the ledger row queued for a rank
  of \<open>S1\<close>, and the states of the run on that world: at its start, after the first
  row of the view and after the second.
\<close>

definition hawksData :: "jsval list list" where
  "hawksData =
     [[Str ''Active'', Str [], Str [], Str [], Str [], Str ''Sep 1, 2025''],
      [Str [], Str ''1st'', Str ''2nd'', Str ''3rd'', Str ''4th'', Str ''5th''],
      [Str ''DSID'', Str [], Str [], Str [], Str [], Str []],
      [Str ''S1'', Str ''X'', Str ''X'', Str [], Str [], Str []],
      [Str ''S1'', Str [], Str ''X'', Str [], Str [], Str []]]"

definition hawksRow :: "string \<Rightarrow> jsval list" where
  "hawksRow rank =
     [DateV 0, Str ''S1'', Undefined, Undefined, Undefined, Undefined, Str rank, Str ''Sep 1, 2025'',
      Str ''unknown'', Str ''Hawks'', Str ''X'', Str ''{}'', Str []]"

definition dupState0 :: scanState where
  "dupState0 = \<lparr>scWorld = hawksDuplicateWorld, scEventMap = Map.empty, scNewEvents = [], scFault = None\<rparr>"

definition dupState1 :: scanState where
  "dupState1 = dupState0\<lparr>scNewEvents := [hawksRow ''1st'', hawksRow ''2nd''],
          scEventMap := [''S1|1st|Sep 1, 2025'' \<mapsto> Suc (Suc 0), ''S1|2nd|Sep 1, 2025'' \<mapsto> Suc (Suc (Suc 0))]\<rparr>"

definition dupState2 :: scanState where
  "dupState2 = dupState1\<lparr>scWorld := updateSheet ''EventLog'' (setValue 3 11 (Str ''X'')) hawksDuplicateWorld\<rparr>"






section \<open>Facts about the store\<close>


lemma sheetName_setValue [simp]: "sheetName (setValue r c v sh) = sheetName sh"
  by (simp add: setValue_def)

lemma sheetName_clearContent [simp]: "sheetName (clearContent r c sh) = sheetName sh"
  by (simp add: clearContent_def)

lemma sheetName_setNote [simp]: "sheetName (setNote r c n sh) = sheetName sh"
  by (simp add: setNote_def)

lemma sheetName_setRowFrom [simp]: "sheetName (setRowFrom r c vs sh) = sheetName sh"
  by (induction vs arbitrary: c sh) simp_all

lemma sheetName_setRowsFrom [simp]: "sheetName (setRowsFrom r vss sh) = sheetName sh"
  by (induction vss arbitrary: r sh) simp_all

lemma sheetName_appendRow [simp]: "sheetName (appendRow vs sh) = sheetName sh"
  by (simp add: appendRow_def)

lemma cells_setValue [simp]:
  "cells (setValue r c v sh) = (cells sh)(r := (cells sh r)(c := stored v))"
  by (simp add: setValue_def)

lemma cells_clearContent [simp]:
  "cells (clearContent r c sh) = (cells sh)(r := (cells sh r)(c := blankCell))"
  by (simp add: clearContent_def)

lemma cells_setNote [simp]: "cells (setNote r c n sh) = cells sh"
  by (simp add: setNote_def)

lemma cellNotes_setValue [simp]: "cellNotes (setValue r c v sh) = cellNotes sh"
  by (simp add: setValue_def)

lemma cellNotes_clearContent [simp]: "cellNotes (clearContent r c sh) = cellNotes sh"
  by (simp add: clearContent_def)

lemma cellNotes_setNote [simp]:
  "cellNotes (setNote r c n sh) = (cellNotes sh)(r := (cellNotes sh r)(c := n))"
  by (simp add: setNote_def)

lemma cellNotes_setRowFrom [simp]: "cellNotes (setRowFrom r c vs sh) = cellNotes sh"
  by (induction vs arbitrary: c sh) simp_all

lemma cellNotes_appendRow [simp]: "cellNotes (appendRow vs sh) = cellNotes sh"
  by (simp add: appendRow_def)

lemma find_map_update:
  assumes "\<And>s. sheetName (f s) = sheetName s"
  shows "find (\<lambda>s. sheetName s = m) (map (\<lambda>s. if sheetName s = n then f s else s) xs) =
         (if m = n then map_option f (find (\<lambda>s. sheetName s = n) xs)
          else find (\<lambda>s. sheetName s = m) xs)"
  using assms by (induction xs) auto

lemma getSheetByName_updateSheet:
  assumes "\<And>s. sheetName (f s) = sheetName s"
  shows "getSheetByName (updateSheet n f w) m =
         (if m = n then map_option f (getSheetByName w n) else getSheetByName w m)"
  using find_map_update [of f m n "sheets w", OF assms]
  by (simp add: getSheetByName_def updateSheet_def)

lemma find_snoc:
  "find P (xs @ [y]) = (case find P xs of Some x \<Rightarrow> Some x | None \<Rightarrow> if P y then Some y else None)"
  by (induction xs) auto

lemma getSheetByName_insertSheet:
  "getSheetByName (insertSheet n w) m =
     (case getSheetByName w m of Some s \<Rightarrow> Some s
      | None \<Rightarrow> if m = n then Some (newSheet n) else None)"
  by (auto simp: getSheetByName_def insertSheet_def find_snoc newSheet_def split: option.splits)

lemma getSheetByName_loggerLogLine [simp]: "getSheetByName (loggerLogLine m w) n = getSheetByName w n"
  by (simp add: getSheetByName_def loggerLogLine_def)

lemma getSheetByName_toast [simp]: "getSheetByName (toast E m t w) n = getSheetByName w n"
  by (simp add: getSheetByName_def toast_def)

lemma getSheetByName_debugLog:
  "n \<noteq> ''DebugLog'' \<Longrightarrow> getSheetByName (debugLog E m w) n = getSheetByName w n"
  by (simp add: debugLog_def Let_def getSheetByName_updateSheet getSheetByName_insertSheet
           split: option.splits)

lemma getValueAt_debugLog:
  "n \<noteq> ''DebugLog'' \<Longrightarrow> getValueAt (debugLog E m w) n = getValueAt w n"
  by (simp add: getValueAt_def getSheetByName_debugLog fun_eq_iff)

lemma getNoteAt_debugLog [simp]: "getNoteAt (debugLog E m w) n = getNoteAt w n"
  by (auto simp: getNoteAt_def debugLog_def Let_def getSheetByName_updateSheet
        getSheetByName_insertSheet newSheet_def fun_eq_iff split: option.splits)

lemma getValueAt_toast [simp]: "getValueAt (toast E m t w) n = getValueAt w n"
  by (simp add: getValueAt_def fun_eq_iff)

lemma getNoteAt_toast [simp]: "getNoteAt (toast E m t w) n = getNoteAt w n"
  by (simp add: getNoteAt_def fun_eq_iff)

lemma getValueAt_restoreOld:
  "getSheetByName w (evSheet e) = Some sh \<Longrightarrow>
   getValueAt (restoreOld e w) n =
     (if n = evSheet e
      then (getValueAt w n)(evRow e := (getValueAt w n (evRow e))
             (evCol e := (case evOldValue e of Some v \<Rightarrow> stored v | None \<Rightarrow> blankCell)))
      else getValueAt w n)"
  by (auto simp: getValueAt_def restoreOld_def getSheetByName_updateSheet fun_eq_iff
        split: option.splits)

lemma getNoteAt_restoreOld [simp]: "getNoteAt (restoreOld e w) n = getNoteAt w n"
  by (auto simp: getNoteAt_def restoreOld_def getSheetByName_updateSheet fun_eq_iff
        split: option.splits)


lemma getSheetByName_restoreOld_other:
  "n \<noteq> evSheet e \<Longrightarrow> getSheetByName (restoreOld e w) n = getSheetByName w n"
  by (simp add: restoreOld_def getSheetByName_updateSheet split: option.splits)


lemma hasSheet_updateSheet [simp]:
  "(\<And>s. sheetName (f s) = sheetName s) \<Longrightarrow> hasSheet (updateSheet m f w) n = hasSheet w n"
  by (simp add: hasSheet_def getSheetByName_updateSheet)

lemma hasSheet_toast [simp]: "hasSheet (toast E m t w) n = hasSheet w n"
  by (simp add: hasSheet_def)

lemma hasSheet_debugLog [simp]: "n \<noteq> ''DebugLog'' \<Longrightarrow> hasSheet (debugLog E m w) n = hasSheet w n"
  by (simp add: hasSheet_def getSheetByName_debugLog)

lemma hasSheet_restoreOld [simp]: "hasSheet (restoreOld e w) n = hasSheet w n"
  by (simp add: restoreOld_def split: option.splits)

lemma getValueAt_setValue:
  "hasSheet w n \<Longrightarrow>
   getValueAt (updateSheet n (setValue r c v) w) m =
     (if m = n then (getValueAt w n)(r := (getValueAt w n r)(c := stored v)) else getValueAt w m)"
  by (auto simp: hasSheet_def getValueAt_def getSheetByName_updateSheet fun_eq_iff)

lemma getValueAt_clearContent:
  "hasSheet w n \<Longrightarrow>
   getValueAt (updateSheet n (clearContent r c) w) m =
     (if m = n then (getValueAt w n)(r := (getValueAt w n r)(c := blankCell)) else getValueAt w m)"
  by (auto simp: hasSheet_def getValueAt_def getSheetByName_updateSheet fun_eq_iff)

lemma getValueAt_setNote [simp]:
  "getValueAt (updateSheet n (setNote r c x) w) m = getValueAt w m"
  by (auto simp: getValueAt_def getSheetByName_updateSheet fun_eq_iff split: option.splits)

lemma getNoteAt_setValue [simp]:
  "getNoteAt (updateSheet n (setValue r c v) w) m = getNoteAt w m"
  by (auto simp: getNoteAt_def getSheetByName_updateSheet fun_eq_iff split: option.splits)

lemma getNoteAt_clearContent [simp]:
  "getNoteAt (updateSheet n (clearContent r c) w) m = getNoteAt w m"
  by (auto simp: getNoteAt_def getSheetByName_updateSheet fun_eq_iff split: option.splits)

lemma getNoteAt_setNote:
  "hasSheet w n \<Longrightarrow>
   getNoteAt (updateSheet n (setNote r c x) w) m =
     (if m = n then (getNoteAt w n)(r := (getNoteAt w n r)(c := x)) else getNoteAt w m)"
  by (auto simp: hasSheet_def getNoteAt_def getSheetByName_updateSheet fun_eq_iff)

lemma userProperties_updateSheet [simp]: "userProperties (updateSheet n f w) = userProperties w"
  by (simp add: updateSheet_def)

lemma userProperties_toast [simp]: "userProperties (toast E m t w) = userProperties w"
  by (simp add: toast_def)

lemma userProperties_debugLog [simp]: "userProperties (debugLog E m w) = userProperties w"
  by (simp add: debugLog_def Let_def loggerLogLine_def insertSheet_def)

lemma userProperties_restoreOld [simp]: "userProperties (restoreOld e w) = userProperties w"
  by (simp add: restoreOld_def split: option.splits)

lemma getSavedUserEmail_cong: "userProperties w' = userProperties w \<Longrightarrow> getSavedUserEmail w' = getSavedUserEmail w"
  by (simp add: getSavedUserEmail_def)

lemma find_upt_Some:
  "find P [0..<n] = Some i \<Longrightarrow> i < n \<and> P i \<and> (\<forall>j<i. \<not> P j)"
  by (auto simp: find_Some_iff)

lemma find_upt_None: "find P [0..<n] = None \<Longrightarrow> \<forall>j<n. \<not> P j"
  by (auto simp: find_None_iff)

lemma find_upt_NoneI: "(\<And>j. j < n \<Longrightarrow> \<not> P j) \<Longrightarrow> find P [0..<n] = None"
  by (auto simp: find_None_iff)

lemma truthy_not_missing: "truthy v \<Longrightarrow> \<not> isMissing (stored v)"
  by (cases v) (auto simp: isMissing_def stored_def blankCell_def)

lemma getValueAt_restoreOld':
  "hasSheet w (evSheet e) \<Longrightarrow>
   getValueAt (restoreOld e w) n =
     (if n = evSheet e
      then (getValueAt w n)(evRow e := (getValueAt w n (evRow e))(evCol e := oldContent e))
      else getValueAt w n)"
  by (auto simp: restoreOld_def oldContent_def getValueAt_setValue getValueAt_clearContent split: option.splits)


section \<open>The steps of the edit guard\<close>


lemma getValueAt_cells: "getSheetByName w n = Some sh \<Longrightarrow> getValueAt w n = cells sh"
  by (simp add: getValueAt_def fun_eq_iff)

lemma getNoteAt_cellNotes: "getSheetByName w n = Some sh \<Longrightarrow> getNoteAt w n = cellNotes sh"
  by (simp add: getNoteAt_def fun_eq_iff)

lemma findIndex_less: "findIndex P xs = Some i \<Longrightarrow> i < length xs"
  by (induction xs arbitrary: i) (auto split: if_splits)

lemma length_INFRACTION_SEQUENCE [simp]: "length INFRACTION_SEQUENCE = 5"
  by (simp add: INFRACTION_SEQUENCE_def)

lemma not_excluded_not_debug: "n \<notin> set EXCLUDE_SHEETS \<Longrightarrow> n \<noteq> ''DebugLog''"
  by (auto simp: EXCLUDE_SHEETS_def)

lemma relocateStep_moves:
  assumes "hasSheet w (evSheet e)" and "evSheet e \<noteq> ''DebugLog''"
    and "find (\<lambda>idx. isMissing (getValueAt w (evSheet e) (evRow e) (startCol wb + idx))) [0..<5] = Some f"
    and "f < li"
  shows "\<exists>w'. relocateStep E e li v wb w = (w', True, startCol wb + f, f)
           \<and> hasSheet w' (evSheet e)
           \<and> getValueAt w' (evSheet e) =
               (getValueAt w (evSheet e))(evRow e :=
                  ((getValueAt w (evSheet e) (evRow e))(evCol e := oldContent e))(startCol wb + f := stored v))
           \<and> getNoteAt w' = getNoteAt w
           \<and> userProperties w' = userProperties w"
  using assms
  by (simp add: relocateStep_def Let_def getValueAt_debugLog getValueAt_setValue getValueAt_restoreOld'
        fun_eq_iff)

lemma relocateStep_stays:
  assumes "case find (\<lambda>idx. isMissing (getValueAt w (evSheet e) (evRow e) (startCol wb + idx))) [0..<5] of
             Some f \<Rightarrow> li \<le> f | None \<Rightarrow> True"
  shows "relocateStep E e li v wb w = (w, False, evCol e, li)"
  using assms by (auto simp: relocateStep_def split: option.splits)

lemma sequenceCheck_pass:
  assumes "\<And>i. i < wli \<Longrightarrow> \<not> isMissing (getValueAt w (evSheet e) (evRow e) (startCol wb + i))"
  shows "sequenceCheck E e wb (w, rel, wc, wli) = Inr (w, rel, wc, wli)"
proof -
  have "find (\<lambda>i. isMissing (getValueAt w (evSheet e) (evRow e) (startCol wb + i))) [0..<wli] = None"
    using assms by (auto simp: find_None_iff)
  then show ?thesis by (simp add: sequenceCheck_def)
qed

lemma identityStep_email:
  assumes "hasSheet w (evSheet e)" and "getSavedUserEmail w = Some email"
  shows "getValueAt (identityStep E e (w, rel, wc, wli)) = getValueAt w"
    and "getNoteAt (identityStep E e (w, rel, wc, wli)) (evSheet e) =
           (getNoteAt w (evSheet e))(evRow e := (getNoteAt w (evSheet e) (evRow e))
              (wc := stampNote E email (getNoteAt w (evSheet e) (evRow e) wc)))"
  using assms by (simp_all add: identityStep_def Let_def getNoteAt_setNote stampNote_def fun_eq_iff)

lemma identityStep_no_email:
  assumes "hasSheet w (evSheet e)" and "getSavedUserEmail w = None"
  shows "getValueAt (identityStep E e (w, rel, wc, wli)) (evSheet e) =
           (getValueAt w (evSheet e))(evRow e := (getValueAt w (evSheet e) (evRow e))
              (if rel then wc else evCol e := if rel then blankCell else oldContent e))"
    and "getNoteAt (identityStep E e (w, rel, wc, wli)) (evSheet e) =
           (getNoteAt w (evSheet e))(evRow e := (getNoteAt w (evSheet e) (evRow e))(evCol e := blockedNote))"
  using assms
  by (simp_all add: identityStep_def revertWorking_def getNoteAt_setNote getValueAt_clearContent
        getValueAt_restoreOld' fun_eq_iff)



lemma sequenceOK_iff:
  "sequenceOK rc s \<longleftrightarrow> (\<forall>i<5. \<not> isMissing (rc (s + i)) \<longrightarrow> (\<forall>j<i. \<not> isMissing (rc (s + j))))"
  by (auto simp: sequenceOK_def list_all_iff)

lemma onEdit_rank_unfold:
  assumes "getSheetByName w (evSheet e) = Some sh"
    and "evSheet e \<notin> set EXCLUDE_SHEETS"
    and "FIRST_STUDENT_ROW < evRow e"
    and "getActiveWeekBlockCols E sh = Inr cols"
    and "case cols of Some b \<Rightarrow> startCol b \<le> evCol e \<and> evCol e \<le> endCol b | None \<Rightarrow> True"
    and "findIndex (\<lambda>entry. entry = toLowerCase (cellText E (cells sh 2 (evCol e)))) INFRACTION_SEQUENCE = Some li"
    and "truthy (newValOf e sh)"
    and "weekBlockFor E sh (evCol e) cols = Some wb"
  shows "onEdit E (Some e) w =
           (case sequenceCheck E e wb (relocateStep E e li (newValOf e sh) wb w) of
              Inl w' \<Rightarrow> w' | Inr st \<Rightarrow> identityStep E e st)"
proof -
  have "\<not> (case cols of Some b \<Rightarrow> \<not> (startCol b \<le> evCol e \<and> evCol e \<le> endCol b) | None \<Rightarrow> False)"
    using assms(5) by (cases cols) auto
  moreover have "newValOf e sh \<noteq> Str []" using assms(7) by auto
  ultimately show ?thesis
    using assms(1-4,6-8) by (simp add: onEdit_def Let_def)
qed

lemma onEdit_in_place:
  assumes "getSheetByName w (evSheet e) = Some sh"
    and "evSheet e \<notin> set EXCLUDE_SHEETS"
    and "FIRST_STUDENT_ROW < evRow e"
    and "getActiveWeekBlockCols E sh = Inr cols"
    and "case cols of Some b \<Rightarrow> startCol b \<le> evCol e \<and> evCol e \<le> endCol b | None \<Rightarrow> True"
    and "findIndex (\<lambda>entry. entry = toLowerCase (cellText E (cells sh 2 (evCol e)))) INFRACTION_SEQUENCE = Some li"
    and "truthy (newValOf e sh)"
    and "weekBlockFor E sh (evCol e) cols = Some wb"
    and "\<And>i. i < li \<Longrightarrow> \<not> isMissing (cells sh (evRow e) (startCol wb + i))"
  shows "onEdit E (Some e) w = identityStep E e (w, False, evCol e, li)"
proof -
  have gv: "getValueAt w (evSheet e) = cells sh" by (rule getValueAt_cells [OF assms(1)])
  have li5: "li < 5" using findIndex_less [OF assms(6)] by simp
  have "case find (\<lambda>idx. isMissing (getValueAt w (evSheet e) (evRow e) (startCol wb + idx))) [0..<5] of
          Some f \<Rightarrow> li \<le> f | None \<Rightarrow> True"
    using assms(9) by (auto simp: gv find_Some_iff split: option.splits intro: leI)
  then have r: "relocateStep E e li (newValOf e sh) wb w = (w, False, evCol e, li)"
    by (rule relocateStep_stays)
  have s: "sequenceCheck E e wb (w, False, evCol e, li) = Inr (w, False, evCol e, li)"
    by (rule sequenceCheck_pass) (simp add: gv assms(9))
  show ?thesis
    by (simp add: onEdit_rank_unfold [OF assms(1-8)] r s)
qed

lemma onEdit_relocated:
  assumes "getSheetByName w (evSheet e) = Some sh"
    and "evSheet e \<notin> set EXCLUDE_SHEETS"
    and "FIRST_STUDENT_ROW < evRow e"
    and "getActiveWeekBlockCols E sh = Inr cols"
    and "case cols of Some b \<Rightarrow> startCol b \<le> evCol e \<and> evCol e \<le> endCol b | None \<Rightarrow> True"
    and "findIndex (\<lambda>entry. entry = toLowerCase (cellText E (cells sh 2 (evCol e)))) INFRACTION_SEQUENCE = Some li"
    and "truthy (newValOf e sh)"
    and "weekBlockFor E sh (evCol e) cols = Some wb"
    and "evCol e = startCol wb + li"
    and "f < li" and "isMissing (cells sh (evRow e) (startCol wb + f))"
    and "\<And>i. i < f \<Longrightarrow> \<not> isMissing (cells sh (evRow e) (startCol wb + i))"
  shows "\<exists>w1. onEdit E (Some e) w = identityStep E e (w1, True, startCol wb + f, f)
           \<and> hasSheet w1 (evSheet e)
           \<and> getValueAt w1 (evSheet e) =
               (cells sh)(evRow e := ((cells sh (evRow e))(evCol e := oldContent e))
                  (startCol wb + f := stored (newValOf e sh)))
           \<and> getNoteAt w1 = getNoteAt w
           \<and> userProperties w1 = userProperties w"
proof -
  have gv: "getValueAt w (evSheet e) = cells sh" by (rule getValueAt_cells [OF assms(1)])
  have hs: "hasSheet w (evSheet e)" using assms(1) by (simp add: hasSheet_def)
  have nd: "evSheet e \<noteq> ''DebugLog''" by (rule not_excluded_not_debug [OF assms(2)])
  have li5: "li < 5" using findIndex_less [OF assms(6)] by simp
  have fnd: "find (\<lambda>idx. isMissing (getValueAt w (evSheet e) (evRow e) (startCol wb + idx))) [0..<5] = Some f"
    unfolding gv find_Some_iff
    using assms(10-12) li5 by (intro exI [of _ f]) auto
  from relocateStep_moves [OF hs nd fnd assms(10), of E "newValOf e sh"]
  obtain w1 where w1: "relocateStep E e li (newValOf e sh) wb w = (w1, True, startCol wb + f, f)"
      "hasSheet w1 (evSheet e)"
      "getValueAt w1 (evSheet e) =
         (getValueAt w (evSheet e))(evRow e :=
            ((getValueAt w (evSheet e) (evRow e))(evCol e := oldContent e))(startCol wb + f := stored (newValOf e sh)))"
      "getNoteAt w1 = getNoteAt w" "userProperties w1 = userProperties w"
    by blast
  have s: "sequenceCheck E e wb (w1, True, startCol wb + f, f) = Inr (w1, True, startCol wb + f, f)"
  proof (rule sequenceCheck_pass)
    fix i assume "i < f"
    then show "\<not> isMissing (getValueAt w1 (evSheet e) (evRow e) (startCol wb + i))"
      using assms(9,10,12) by (simp add: w1(3) gv)
  qed
  show ?thesis
    using w1 by (intro exI [of _ w1]) (simp add: onEdit_rank_unfold [OF assms(1-8)] s gv)
qed


section \<open>Facts about the ledger helpers\<close>

lemma eventColOf_foldl:
  "foldl (\<lambda>m i. m(f i \<mapsto> i)) m0 is k = Some i \<Longrightarrow> i \<in> set is \<or> m0 k = Some i"
proof (induction "is" arbitrary: m0)
  case Nil
  then show ?case by simp
next
  case (Cons a "is")
  from Cons.prems have "foldl (\<lambda>m i. m(f i \<mapsto> i)) (m0(f a \<mapsto> a)) is k = Some i"
    by (simp only: foldl_Cons)
  from Cons.IH [OF this] show ?case by (auto split: if_splits)
qed

lemma getValues_row [simp]:
  "i < n \<Longrightarrow> getValues sh r (Suc 0) (Suc 0) n ! 0 ! i = cells sh r (Suc i)"
  by (simp add: getValues_def del: upt_Suc)

lemma length_getValues_row [simp]: "length (getValues sh r c (Suc 0) n ! 0) = n"
  by (simp add: getValues_def del: upt_Suc)

lemma eventColOf_less: "eventColOf E hs k = Some i \<Longrightarrow> i < length hs"
  using eventColOf_foldl [of "\<lambda>i. toString E (hs ! i)" Map.empty "[0..<length hs]" k i]
  by (simp add: eventColOf_def)

section \<open>White space and trimming\<close>

lemma wideSpaces_nonempty: "p \<in> set wideSpaces \<Longrightarrow> p \<noteq> []"
  by (auto simp: wideSpaces_def)

lemma leadingSpace_Nil [simp]: "leadingSpace [] = 0"
  by (simp add: leadingSpace_def)

lemma trailingSpace_Nil [simp]: "trailingSpace [] = 0"
  by (simp add: trailingSpace_def)

lemma leadingSpace_zero_iff:
  "leadingSpace s = 0 \<longleftrightarrow>
     s = [] \<or> (hd s \<notin> set asciiSpaces \<and> (\<forall>p\<in>set wideSpaces. take (length p) s \<noteq> p))"
proof (cases s)
  case Nil
  then show ?thesis by simp
next
  case (Cons c cs)
  have hd: "c \<in> set (map hd wideSpaces)" if "p \<in> set wideSpaces" "take (length p) (c # cs) = p" for p
  proof -
    from that wideSpaces_nonempty have "p \<noteq> []" by blast
    then obtain x xs where "p = x # xs" by (cases p) auto
    with that(2) have "x = c" by simp
    with \<open>p = x # xs\<close> that(1) show ?thesis by force
  qed
  have len: "length p \<noteq> 0" if "find (\<lambda>p. take (length p) (c # cs) = p) wideSpaces = Some p" for p
  proof -
    from that have "p \<in> set wideSpaces" by (auto simp: find_Some_iff)
    then show ?thesis using wideSpaces_nonempty by auto
  qed
  show ?thesis
  proof (cases "find (\<lambda>p. take (length p) (c # cs) = p) wideSpaces")
    case None
    then have "\<forall>p\<in>set wideSpaces. take (length p) (c # cs) \<noteq> p" by (auto simp: find_None_iff)
    then show ?thesis unfolding Cons leadingSpace_def by (simp add: None)
  next
    case (Some p)
    then have p: "p \<in> set wideSpaces" "take (length p) (c # cs) = p" by (auto simp: find_Some_iff)
    show ?thesis unfolding Cons leadingSpace_def using Some len [OF Some] p hd [OF p] by auto
  qed
qed

lemma leadingSpace_take:
  assumes "leadingSpace s = 0"
  shows "leadingSpace (take n s) = 0"
proof (cases "take n s = []")
  case True
  show ?thesis unfolding True by (rule leadingSpace_Nil)
next
  case False
  then have s: "s \<noteq> []" and n: "0 < n" by auto
  from assms s have a: "hd s \<notin> set asciiSpaces" and w: "\<forall>p\<in>set wideSpaces. take (length p) s \<noteq> p"
    by (simp_all add: leadingSpace_zero_iff)
  have "hd (take n s) = hd s" using n s by (cases s; cases n) auto
  moreover have "take (length p) (take n s) \<noteq> p" if "p \<in> set wideSpaces" for p
  proof
    assume e: "take (length p) (take n s) = p"
    from arg_cong [where f = length, OF e]
    have "length p \<le> n" "length p \<le> length s" by simp_all
    then have "take (length p) s = p" using e by (simp add: min_def)
    with w that show False by blast
  qed
  ultimately show ?thesis using a by (simp add: leadingSpace_zero_iff)
qed

lemma leadingSpace_dropSpaces [simp]: "leadingSpace (dropSpaces s) = 0"
  by (induction s rule: dropSpaces.induct) (subst dropSpaces.simps, simp)

lemma dropSpaces_id: "leadingSpace s = 0 \<Longrightarrow> dropSpaces s = s"
  by (subst dropSpaces.simps) simp

lemma trailingSpace_dropSpacesEnd [simp]: "trailingSpace (dropSpacesEnd s) = 0"
  by (induction s rule: dropSpacesEnd.induct) (subst dropSpacesEnd.simps, simp)

lemma dropSpacesEnd_id: "trailingSpace s = 0 \<Longrightarrow> dropSpacesEnd s = s"
  by (subst dropSpacesEnd.simps) simp

lemma dropSpacesEnd_take: "\<exists>n. dropSpacesEnd s = take n s"
proof (induction s rule: dropSpacesEnd.induct)
  case (1 s)
  show ?case
  proof (cases "trailingSpace s = 0")
    case True
    then have "dropSpacesEnd s = take (length s) s" by (simp add: dropSpacesEnd_id)
    then show ?thesis by blast
  next
    case False
    from 1 [OF False] obtain n where "dropSpacesEnd (take (length s - trailingSpace s) s) =
                                        take n (take (length s - trailingSpace s) s)" by blast
    then have "dropSpacesEnd s = take (min n (length s - trailingSpace s)) s"
      using False by (subst dropSpacesEnd.simps) (simp add: min.commute)
    then show ?thesis by blast
  qed
qed

lemma leadingSpace_trim [simp]: "leadingSpace (trim s) = 0"
proof -
  obtain n where "dropSpacesEnd (dropSpaces s) = take n (dropSpaces s)"
    using dropSpacesEnd_take by blast
  then show ?thesis by (simp add: trim_def leadingSpace_take)
qed

lemma trailingSpace_trim [simp]: "trailingSpace (trim s) = 0"
  by (simp add: trim_def)

lemma trim_trim [simp]: "trim (trim s) = trim s"
proof -
  have "dropSpaces (trim s) = trim s" by (simp add: dropSpaces_id)
  moreover have "dropSpacesEnd (trim s) = trim s" by (simp add: dropSpacesEnd_id)
  ultimately show ?thesis by (simp add: trim_def [of "trim s"])
qed



section \<open>The two lookups of the active week\<close>


lemma length_getValues [simp]: "length (getValues sh r c nr nc) = nr"
  by (simp add: getValues_def)

lemma length_getValues_nth [simp]: "i < nr \<Longrightarrow> length (getValues sh r c nr nc ! i) = nc"
  by (simp add: getValues_def)



section \<open>The edit guard: blank edits and edits outside the active week\<close>

text \<open>
  C9.  An edit inside the active week block (the view is not a reserved one, the row
  is a student row, the column lies in the resolved block and is labelled with a
  rank) whose new value is empty, or falsy in any other way, is accepted as it is:
  the guard returns the store unchanged.  Nothing is assumed about the other cells
  of the row, so higher ranks may well be filled.
\<close>

theorem onEdit_blank_accepted:
  assumes "getSheetByName w (evSheet e) = Some sh"
    and "evSheet e \<notin> set EXCLUDE_SHEETS"
    and "FIRST_STUDENT_ROW < evRow e"
    and "getActiveWeekBlockCols E sh = Inr (Some b)"
    and "startCol b \<le> evCol e" and "evCol e \<le> endCol b"
    and "findIndex (\<lambda>entry. entry = toLowerCase (cellText E (cells sh 2 (evCol e)))) INFRACTION_SEQUENCE
           = Some labelIndex"
    and "\<not> truthy (newValOf e sh)"
  shows "onEdit E (Some e) w = w"
  using assms by (simp add: onEdit_def)

theorem onEdit_blank_accepted_witness:
  "getSheetByName (falconsWorld (Str ''Active'') [Str [], Str ''X'', Str ''X'', Str [], Str []] (Some ''t@x.org'')) ''Falcons''
     = Some (falconsSheet (Str ''Active'') [Str [], Str ''X'', Str ''X'', Str [], Str []])
   \<and> getValueAt (falconsWorld (Str ''Active'') [Str [], Str ''X'', Str ''X'', Str [], Str []] (Some ''t@x.org'')) ''Falcons'' 4 11
       = Str ''X''
   \<and> onEdit demoEnv (Some (editAt 10 None (Some (Str ''X''))))
        (falconsWorld (Str ''Active'') [Str [], Str ''X'', Str ''X'', Str [], Str []] (Some ''t@x.org''))
       = falconsWorld (Str ''Active'') [Str [], Str ''X'', Str ''X'', Str [], Str []] (Some ''t@x.org'')"
proof -
  let ?ranks = "[Str [], Str ''X'', Str ''X'', Str [], Str []]"
  let ?w = "falconsWorld (Str ''Active'') ?ranks (Some ''t@x.org'')"
  let ?e = "editAt 10 None (Some (Str ''X''))"
  have h1: "getSheetByName ?w (evSheet ?e) = Some (falconsSheet (Str ''Active'') ?ranks)"
    by (simp add: getSheetByName_def falconsWorld_def falconsSheet_def sheetOf_def editAt_def)
  have h2: "evSheet ?e \<notin> set EXCLUDE_SHEETS" by code_simp
  have h3: "FIRST_STUDENT_ROW < evRow ?e" by code_simp
  have h4: "getActiveWeekBlockCols demoEnv (falconsSheet (Str ''Active'') ?ranks) = Inr (Some \<lparr>startCol = 10, endCol = 14\<rparr>)"
    by code_simp
  have h5: "startCol \<lparr>startCol = 10, endCol = 14\<rparr> \<le> evCol ?e" by code_simp
  have h6: "evCol ?e \<le> endCol \<lparr>startCol = 10, endCol = 14\<rparr>" by code_simp
  have h7: "findIndex (\<lambda>entry. entry = toLowerCase (cellText demoEnv (cells (falconsSheet (Str ''Active'') ?ranks) 2 (evCol ?e))))
              INFRACTION_SEQUENCE = Some 0" by code_simp
  have h8: "\<not> truthy (newValOf ?e (falconsSheet (Str ''Active'') ?ranks))" by code_simp
  have v: "getValueAt ?w ''Falcons'' 4 11 = Str ''X''" by code_simp
  have n: "evSheet ?e = ''Falcons''" by code_simp
  from onEdit_blank_accepted [OF h1 h2 h3 h4 h5 h6 h7 h8] h1 v n show ?thesis by simp
qed

text \<open>
  C7.  An edit on a student row of a view that is not reserved, in a column outside
  the resolved active week block, is rejected: the edited cell holds its previous
  value again (it is empty when there was none), every other cell of the view and
  every other sheet but the diagnostic log are as before, so nothing was moved, and
  no note of any cell of any sheet has changed.
\<close>

theorem onEdit_outside_active_block_reverted:
  assumes "getSheetByName w (evSheet e) = Some sh"
    and "evSheet e \<notin> set EXCLUDE_SHEETS"
    and "FIRST_STUDENT_ROW < evRow e"
    and "getActiveWeekBlockCols E sh = Inr (Some b)"
    and "evCol e < startCol b \<or> endCol b < evCol e"
  shows "getValueAt (onEdit E (Some e) w) (evSheet e) =
           (getValueAt w (evSheet e))(evRow e := (getValueAt w (evSheet e) (evRow e))
              (evCol e := (case evOldValue e of Some v \<Rightarrow> stored v | None \<Rightarrow> blankCell)))
         \<and> (\<forall>n. n \<noteq> evSheet e \<and> n \<noteq> ''DebugLog'' \<longrightarrow>
                getSheetByName (onEdit E (Some e) w) n = getSheetByName w n)
         \<and> (\<forall>n. getNoteAt (onEdit E (Some e) w) n = getNoteAt w n)"
proof -
  have out: "\<not> (startCol b \<le> evCol e \<and> evCol e \<le> endCol b)"
    using assms(5) by auto
  have nd: "evSheet e \<noteq> ''DebugLog''"
    using assms(2) by (auto simp: EXCLUDE_SHEETS_def)
  define m where "m = ''['' @ evSheet e @ ''] Blocked edit outside current week at R''
                        @ showNat (evRow e) @ ''C'' @ showNat (evCol e) @ ''.''"
  define t where "t = ''Edits are locked for past/future weeks. ''
                        @ ''Please use the current week's columns only.''"
  have run: "onEdit E (Some e) w = debugLog E m (toast E t ''BSS: Edit Blocked'' (restoreOld e w))"
    using assms(1-4) out by (simp add: onEdit_def m_def t_def)
  have a: "getValueAt (onEdit E (Some e) w) (evSheet e) =
           (getValueAt w (evSheet e))(evRow e := (getValueAt w (evSheet e) (evRow e))
              (evCol e := (case evOldValue e of Some v \<Rightarrow> stored v | None \<Rightarrow> blankCell)))"
    by (simp add: run getValueAt_debugLog [OF nd] getValueAt_restoreOld [OF assms(1)])
  have b: "getSheetByName (onEdit E (Some e) w) n = getSheetByName w n"
    if "n \<noteq> evSheet e \<and> n \<noteq> ''DebugLog''" for n
    using that by (simp add: run getSheetByName_debugLog getSheetByName_restoreOld_other)
  have c: "getNoteAt (onEdit E (Some e) w) n = getNoteAt w n" for n
    by (simp add: run)
  from a b c show ?thesis by blast
qed

theorem onEdit_outside_active_block_reverted_witness:
  "getValueAt (onEdit demoEnv (Some (editAt 7 (Some (Str ''X'')) None))
                 (falconsWorld (Str ''Active'') [Str ''X'', Str [], Str [], Str [], Str []] (Some ''t@x.org''))) ''Falcons'' 4 7
     = blankCell
   \<and> getNoteAt (onEdit demoEnv (Some (editAt 7 (Some (Str ''X'')) None))
                 (falconsWorld (Str ''Active'') [Str ''X'', Str [], Str [], Str [], Str []] (Some ''t@x.org''))) ''Falcons'' 4 7
     = []"
proof -
  let ?ranks = "[Str ''X'', Str [], Str [], Str [], Str []]"
  let ?w = "falconsWorld (Str ''Active'') ?ranks (Some ''t@x.org'')"
  let ?e = "editAt 7 (Some (Str ''X'')) None"
  have h1: "getSheetByName ?w (evSheet ?e) = Some (falconsSheet (Str ''Active'') ?ranks)"
    by (simp add: getSheetByName_def falconsWorld_def falconsSheet_def sheetOf_def editAt_def)
  have h2: "evSheet ?e \<notin> set EXCLUDE_SHEETS" by code_simp
  have h3: "FIRST_STUDENT_ROW < evRow ?e" by code_simp
  have h4: "getActiveWeekBlockCols demoEnv (falconsSheet (Str ''Active'') ?ranks) = Inr (Some \<lparr>startCol = 10, endCol = 14\<rparr>)"
    by code_simp
  have h5: "evCol ?e < startCol \<lparr>startCol = 10, endCol = 14\<rparr> \<or> endCol \<lparr>startCol = 10, endCol = 14\<rparr> < evCol ?e"
    by code_simp
  have n: "evSheet ?e = ''Falcons''" "evRow ?e = 4" "evCol ?e = 7" "evOldValue ?e = None" by code_simp+
  have o: "getNoteAt ?w ''Falcons'' 4 7 = []" by code_simp
  from onEdit_outside_active_block_reverted [OF h1 h2 h3 h4 h5] n o show ?thesis by simp
qed

section \<open>The edit guard: relocation, the missing active block, the sequence invariant\<close>

lemma seq_in_place:
  assumes "sequenceOK (g(s + li := old)) s" and "\<not> isMissing (g (s + li))"
    and "\<forall>i<li. \<not> isMissing (g (s + i))"
  shows "sequenceOK g s"
  unfolding sequenceOK_iff
proof (intro allI impI)
  fix i j assume i: "i < 5" "\<not> isMissing (g (s + i))" and j: "j < i"
  show "\<not> isMissing (g (s + j))"
  proof (cases "j \<le> li")
    case True
    then show ?thesis using assms(2,3) by (cases "j = li") auto
  next
    case False
    then have "i \<noteq> li" "j \<noteq> li" using j by auto
    then show ?thesis
      using assms(1) i j unfolding sequenceOK_iff
      by (metis add_left_cancel fun_upd_apply)
  qed
qed

lemma seq_relocated:
  assumes "sequenceOK (g(s + li := old)) s" and "f < li" and "li < 5"
    and "isMissing (g (s + f))" and "\<forall>i<f. \<not> isMissing (g (s + i))"
  shows "sequenceOK ((g(s + li := old))(s + f := v)) s"
proof -
  let ?pre = "g(s + li := old)"
  have pf: "isMissing (?pre (s + f))" using assms(2,4) by simp
  have above: "isMissing (?pre (s + i))" if "f < i" "i < 5" for i
    using assms(1) pf that unfolding sequenceOK_iff by blast
  have below: "\<not> isMissing (?pre (s + i))" if "i < f" for i
    using assms(2,5) that by simp
  show ?thesis
    unfolding sequenceOK_iff
  proof (intro allI impI)
    fix i j assume i: "i < 5" "\<not> isMissing ((?pre(s + f := v)) (s + i))" and j: "j < i"
    have "i \<le> f"
    proof (rule ccontr)
      assume "\<not> i \<le> f"
      then have "f < i" by simp
      with above [of i] i show False by simp
    qed
    with j have "j < f" by simp
    with below [of j] show "\<not> isMissing ((?pre(s + f := v)) (s + j))" by simp
  qed
qed

lemma seq_other_block:
  assumes "s' + 4 < s \<or> s + 4 < s'" and "a \<le> 4" and "b \<le> 4"
  shows "sequenceOK ((g(s + a := x))(s + b := y)) s' = sequenceOK g s'"
proof -
  have "((g(s + a := x))(s + b := y)) (s' + i) = g (s' + i)" if "i < 5" for i
    using assms that by auto
  then show ?thesis unfolding sequenceOK_iff by auto
qed

lemma seq_other_block1:
  assumes "s' + 4 < s \<or> s + 4 < s'" and "a \<le> 4"
  shows "sequenceOK (g(s + a := x)) s' = sequenceOK g s'"
  using seq_other_block [OF assms(1,2,2), of g x x] by simp


text \<open>
  C1 (amended).  Take an edit into the rank-5 column of the active week block whose
  new value is truthy for the script (a text that is not empty, a number other
  than 0, TRUE or a date), while the rank-4 cell of the row is empty.  The value
  never stays in the rank-5 cell: after the guard that cell holds its previous
  content (it is empty when there was none).  When moreover ranks 1 to 3 are
  filled, the value is moved to the rank-4 cell and stamped there if the user has a
  saved attribution; without one the rank-4 cell is cleared again and its note is
  left as it was, so the value is stored nowhere.  A new value that is not truthy
  (an emptied cell, a pasted 0 or FALSE) is outside the statement: the guard
  returns before it looks at the ranks.
\<close>

theorem onEdit_rank5_relocation:
  assumes "getSheetByName w (evSheet e) = Some sh"
    and "evSheet e \<notin> set EXCLUDE_SHEETS"
    and "FIRST_STUDENT_ROW < evRow e"
    and "getActiveWeekBlockCols E sh = Inr (Some b)"
    and "startCol b \<le> evCol e \<and> evCol e \<le> endCol b"
    and "findIndex (\<lambda>entry. entry = toLowerCase (cellText E (cells sh 2 (evCol e)))) INFRACTION_SEQUENCE = Some 4"
    and "truthy (newValOf e sh)"
    and "weekBlockFor E sh (evCol e) (Some b) = Some wb"
    and "evCol e = startCol wb + 4"
    and "isMissing (cells sh (evRow e) (startCol wb + 3))"
  shows "getValueAt (onEdit E (Some e) w) (evSheet e) (evRow e) (evCol e) = oldContent e
         \<and> ((\<forall>i<3. \<not> isMissing (cells sh (evRow e) (startCol wb + i))) \<longrightarrow>
              getValueAt (onEdit E (Some e) w) (evSheet e) (evRow e) (startCol wb + 3) =
                (case getSavedUserEmail w of None \<Rightarrow> blankCell | Some email \<Rightarrow> stored (newValOf e sh))
              \<and> getNoteAt (onEdit E (Some e) w) (evSheet e) (evRow e) (startCol wb + 3) =
                (case getSavedUserEmail w of
                   None \<Rightarrow> getNoteAt w (evSheet e) (evRow e) (startCol wb + 3)
                 | Some email \<Rightarrow> stampNote E email (getNoteAt w (evSheet e) (evRow e) (startCol wb + 3))))"
proof -
  let ?P = "\<lambda>idx. isMissing (cells sh (evRow e) (startCol wb + idx))"
  have inside: "case Some b of Some b \<Rightarrow> startCol b \<le> evCol e \<and> evCol e \<le> endCol b | None \<Rightarrow> True"
    using assms(5) by simp
  have "find ?P [0..<4] \<noteq> None"
    using assms(10) by (auto simp: find_None_iff intro: exI [of _ 3])
  then obtain f where f: "find ?P [0..<4] = Some f" by blast
  then have f4: "f < 4" and fm: "?P f" and fl: "\<And>i. i < f \<Longrightarrow> \<not> ?P i"
    using find_upt_Some [OF f] by auto
  from onEdit_relocated [OF assms(1-4) inside assms(6-9) f4 fm fl]
  obtain w1 where w1: "onEdit E (Some e) w = identityStep E e (w1, True, startCol wb + f, f)"
      "hasSheet w1 (evSheet e)"
      "getValueAt w1 (evSheet e) =
         (cells sh)(evRow e := ((cells sh (evRow e))(evCol e := oldContent e))
            (startCol wb + f := stored (newValOf e sh)))"
      "getNoteAt w1 = getNoteAt w" "userProperties w1 = userProperties w"
    by blast
  have em: "getSavedUserEmail w1 = getSavedUserEmail w"
    by (rule getSavedUserEmail_cong [OF w1(5)])
  have A: "getValueAt (onEdit E (Some e) w) (evSheet e) (evRow e) (evCol e) = oldContent e"
  proof (cases "getSavedUserEmail w")
    case None
    then show ?thesis
      using identityStep_no_email(1) [OF w1(2), of E True "startCol wb + f" f] f4 assms(9)
      by (simp add: w1(1,3) em)
  next
    case (Some email)
    then show ?thesis
      using identityStep_email(1) [OF w1(2), of email E True "startCol wb + f" f] f4 assms(9)
      by (simp add: w1(1,3) em)
  qed
  have B: "getValueAt (onEdit E (Some e) w) (evSheet e) (evRow e) (startCol wb + 3) =
             (case getSavedUserEmail w of None \<Rightarrow> blankCell | Some email \<Rightarrow> stored (newValOf e sh))
           \<and> getNoteAt (onEdit E (Some e) w) (evSheet e) (evRow e) (startCol wb + 3) =
             (case getSavedUserEmail w of
                None \<Rightarrow> getNoteAt w (evSheet e) (evRow e) (startCol wb + 3)
              | Some email \<Rightarrow> stampNote E email (getNoteAt w (evSheet e) (evRow e) (startCol wb + 3)))"
    if filled: "\<forall>i<3. \<not> isMissing (cells sh (evRow e) (startCol wb + i))"
  proof -
    have "\<not> f < 3" using filled fm by auto
    with f4 have f3: "f = 3" by simp
    show ?thesis
    proof (cases "getSavedUserEmail w")
      case None
      then show ?thesis
        using identityStep_no_email [OF w1(2), of E True "startCol wb + f" f] assms(9)
        by (simp add: w1(1,3,4) em f3)
    next
      case (Some email)
      then show ?thesis
        using identityStep_email [OF w1(2), of email E True "startCol wb + f" f] assms(9)
        by (simp add: w1(1,3,4) em f3)
    qed
  qed
  from A B show ?thesis by blast
qed

theorem onEdit_rank5_relocation_witness:
  "getValueAt (onEdit demoEnv (Some (editAt 14 (Some (Str ''X'')) None))
       (falconsWorld (Str ''Active'') [Str ''X'', Str ''X'', Str ''X'', Str [], Str ''X''] (Some ''t@x.org'')))
       ''Falcons'' 4 14 = Str []
   \<and> getValueAt (onEdit demoEnv (Some (editAt 14 (Some (Str ''X'')) None))
       (falconsWorld (Str ''Active'') [Str ''X'', Str ''X'', Str ''X'', Str [], Str ''X''] (Some ''t@x.org'')))
       ''Falcons'' 4 13 = Str ''X''
   \<and> getNoteAt (onEdit demoEnv (Some (editAt 14 (Some (Str ''X'')) None))
       (falconsWorld (Str ''Active'') [Str ''X'', Str ''X'', Str ''X'', Str [], Str ''X''] (Some ''t@x.org'')))
       ''Falcons'' 4 13 = ''Entered by: t@x.org | 9/1/2025, 8:00:00 AM''"
proof -
  let ?ranks = "[Str ''X'', Str ''X'', Str ''X'', Str [], Str ''X'']"
  let ?sh = "falconsSheet (Str ''Active'') ?ranks"
  let ?w = "falconsWorld (Str ''Active'') ?ranks (Some ''t@x.org'')"
  let ?e = "editAt 14 (Some (Str ''X'')) None"
  let ?b = "\<lparr>startCol = 10, endCol = 14\<rparr>"
  let ?wb = "\<lparr>startCol = 10, endCol = 14, label = ''Sep 1, 2025''\<rparr>"
  have h1: "getSheetByName ?w (evSheet ?e) = Some ?sh"
    by (simp add: getSheetByName_def falconsWorld_def falconsSheet_def sheetOf_def editAt_def)
  have h2: "evSheet ?e \<notin> set EXCLUDE_SHEETS" by code_simp
  have h3: "FIRST_STUDENT_ROW < evRow ?e" by code_simp
  have h4: "getActiveWeekBlockCols demoEnv ?sh = Inr (Some ?b)" by code_simp
  have h5: "startCol ?b \<le> evCol ?e \<and> evCol ?e \<le> endCol ?b" by code_simp
  have h6: "findIndex (\<lambda>entry. entry = toLowerCase (cellText demoEnv (cells ?sh 2 (evCol ?e))))
              INFRACTION_SEQUENCE = Some 4" by code_simp
  have h7: "truthy (newValOf ?e ?sh)" by code_simp
  have h8: "weekBlockFor demoEnv ?sh (evCol ?e) (Some ?b) = Some ?wb" by code_simp
  have h9: "evCol ?e = startCol ?wb + 4" by code_simp
  have h10: "isMissing (cells ?sh (evRow ?e) (startCol ?wb + 3))" by code_simp
  have f: "\<forall>i<3. \<not> isMissing (cells ?sh (evRow ?e) (startCol ?wb + i))"
  proof (intro allI impI)
    fix i :: nat assume "i < 3"
    then consider "i = 0" | "i = 1" | "i = 2" by linarith
    then show "\<not> isMissing (cells ?sh (evRow ?e) (startCol ?wb + i))"
      by cases (simp_all, code_simp+)
  qed
  have n: "evSheet ?e = ''Falcons''" "evRow ?e = 4" "evCol ?e = 14" "startCol ?wb + 3 = 13" by code_simp+
  have o: "oldContent ?e = Str []" "getSavedUserEmail ?w = Some ''t@x.org''"
    "stored (newValOf ?e ?sh) = Str ''X''" "getNoteAt ?w ''Falcons'' 4 13 = []"
    "stampNote demoEnv ''t@x.org'' [] = ''Entered by: t@x.org | 9/1/2025, 8:00:00 AM''" by code_simp+
  from onEdit_rank5_relocation [OF h1 h2 h3 h4 h5 h6 h7 h8 h9 h10] f n o
  show ?thesis by simp
qed

text \<open>
  The claim as stated fails without a saved attribution: ranks 1 to 3 filled, ranks
  4 and 5 empty, \<open>X\<close> typed into rank 5.  After the guard both the rank-4 and the
  rank-5 cell are empty.  It also fails for a pasted 0 (the event carries no value
  and the cell reads the number 0), with a saved attribution: the 0 stays in rank 5
  above the empty rank 4.
\<close>

theorem onEdit_rank5_relocation_counterexample:
  "getSavedUserEmail (falconsWorld (Str ''Active'') [Str ''X'', Str ''X'', Str ''X'', Str [], Str ''X''] None) = None
   \<and> getValueAt (onEdit demoEnv (Some (editAt 14 (Some (Str ''X'')) None))
       (falconsWorld (Str ''Active'') [Str ''X'', Str ''X'', Str ''X'', Str [], Str ''X''] None))
       ''Falcons'' 4 13 = Str []
   \<and> getValueAt (onEdit demoEnv (Some (editAt 14 (Some (Str ''X'')) None))
       (falconsWorld (Str ''Active'') [Str ''X'', Str ''X'', Str ''X'', Str [], Str ''X''] None))
       ''Falcons'' 4 14 = Str []
   \<and> getValueAt (onEdit demoEnv (Some (editAt 14 None None))
       (falconsWorld (Str ''Active'') [Str ''X'', Str ''X'', Str ''X'', Str [], Num 0] (Some ''t@x.org'')))
       ''Falcons'' 4 13 = Str []
   \<and> getValueAt (onEdit demoEnv (Some (editAt 14 None None))
       (falconsWorld (Str ''Active'') [Str ''X'', Str ''X'', Str ''X'', Str [], Num 0] (Some ''t@x.org'')))
       ''Falcons'' 4 14 = Num 0"
  by code_simp




text \<open>
  C8 (amended).  The guard preserves the sequence invariant for edits whose new
  value is truthy for the script (a text that is not empty, a number other than 0,
  TRUE or a date).  Let the edited column be a rank column that lies in the active
  block (or let no active block be resolved), at the position of its rank in the
  week block found for it, and let the sheet hold the new content in the edited
  cell, as it does when the trigger runs.  Then for every row, and for the week
  block of the edit as well as for every block of five columns disjoint from it: if
  the invariant held before the edit (the sheet with the edited cell set back to
  its previous content), it holds after the guard.  Edits whose new value is not
  truthy (an emptied cell, a pasted 0 or FALSE) are left out: the guard accepts
  them as they are.
\<close>

theorem onEdit_preserves_sequence:
  assumes "getSheetByName w (evSheet e) = Some sh"
    and "evSheet e \<notin> set EXCLUDE_SHEETS"
    and "FIRST_STUDENT_ROW < evRow e"
    and "getActiveWeekBlockCols E sh = Inr cols"
    and "case cols of Some b \<Rightarrow> startCol b \<le> evCol e \<and> evCol e \<le> endCol b | None \<Rightarrow> True"
    and "findIndex (\<lambda>entry. entry = toLowerCase (cellText E (cells sh 2 (evCol e)))) INFRACTION_SEQUENCE = Some li"
    and "truthy (newValOf e sh)"
    and "weekBlockFor E sh (evCol e) cols = Some wb"
    and "evCol e = startCol wb + li"
    and "\<not> isMissing (cells sh (evRow e) (evCol e))"
  shows "\<forall>r s. (s = startCol wb \<or> s + 4 < startCol wb \<or> startCol wb + 4 < s) \<longrightarrow>
           sequenceOK (getValueAt (restoreOld e w) (evSheet e) r) s \<longrightarrow>
           sequenceOK (getValueAt (onEdit E (Some e) w) (evSheet e) r) s"
proof (intro allI impI)
  fix r s
  assume blk: "s = startCol wb \<or> s + 4 < startCol wb \<or> startCol wb + 4 < s"
    and pre: "sequenceOK (getValueAt (restoreOld e w) (evSheet e) r) s"
  let ?n = "evSheet e" and ?r = "evRow e" and ?c = "evCol e" and ?s = "startCol wb"
  let ?cur = "cells sh"
  let ?P = "\<lambda>idx. isMissing (?cur ?r (?s + idx))"
  have hs: "hasSheet w ?n" using assms(1) by (simp add: hasSheet_def)
  have gv: "getValueAt w ?n = ?cur" by (rule getValueAt_cells [OF assms(1)])
  have li5: "li < 5" using findIndex_less [OF assms(6)] by simp
  have preval: "getValueAt (restoreOld e w) ?n = ?cur(?r := (?cur ?r)(?c := oldContent e))"
    by (simp add: getValueAt_restoreOld' [OF hs] gv)
  have pre': "sequenceOK ((?cur(?r := (?cur ?r)(?c := oldContent e))) r) s"
    using pre by (simp add: preval)
  show "sequenceOK (getValueAt (onEdit E (Some e) w) ?n r) s"
  proof (cases "find ?P [0..<li]")
    case None
    then have filled: "\<And>i. i < li \<Longrightarrow> \<not> ?P i" by (auto simp: find_None_iff)
    have run: "onEdit E (Some e) w = identityStep E e (w, False, ?c, li)"
      by (rule onEdit_in_place [OF assms(1-8) filled])
    show ?thesis
    proof (cases "getSavedUserEmail w")
      case None
      have "getValueAt (onEdit E (Some e) w) ?n = ?cur(?r := (?cur ?r)(?c := oldContent e))"
        using identityStep_no_email(1) [OF hs None, of E False ?c li] by (simp add: run gv)
      with pre' show ?thesis by simp
    next
      case (Some email)
      have fin: "getValueAt (onEdit E (Some e) w) ?n = ?cur"
        using identityStep_email(1) [OF hs Some, of E False ?c li] by (simp add: run gv)
      show ?thesis
      proof (cases "r = ?r")
        case False
        with pre' show ?thesis by (simp add: fin)
      next
        case True
        from blk show ?thesis
        proof
          assume s: "s = ?s"
          have "sequenceOK (?cur ?r) ?s"
            by (rule seq_in_place [where old = "oldContent e" and li = li])
               (use pre' True s assms(9,10) filled in auto)
          then show ?thesis by (simp add: fin True s)
        next
          assume "s + 4 < ?s \<or> ?s + 4 < s"
          then have "sequenceOK ((?cur ?r)(?s + li := oldContent e)) s = sequenceOK (?cur ?r) s"
            using li5 by (intro seq_other_block1) auto
          with pre' True assms(9) show ?thesis by (simp add: fin)
        qed
      qed
    qed
  next
    case (Some f)
    then have f: "f < li" "?P f" "\<And>i. i < f \<Longrightarrow> \<not> ?P i"
      using find_upt_Some [OF Some] by auto
    from onEdit_relocated [OF assms(1-9) f]
    obtain w1 where w1: "onEdit E (Some e) w = identityStep E e (w1, True, ?s + f, f)"
        "hasSheet w1 ?n"
        "getValueAt w1 ?n = ?cur(?r := ((?cur ?r)(?c := oldContent e))(?s + f := stored (newValOf e sh)))"
        "getNoteAt w1 = getNoteAt w" "userProperties w1 = userProperties w"
      by blast
    have em: "getSavedUserEmail w1 = getSavedUserEmail w"
      by (rule getSavedUserEmail_cong [OF w1(5)])
    obtain v where fin: "getValueAt (onEdit E (Some e) w) ?n =
        ?cur(?r := ((?cur ?r)(?s + li := oldContent e))(?s + f := v))"
    proof (cases "getSavedUserEmail w")
      case None
      have "getValueAt (onEdit E (Some e) w) ?n =
              ?cur(?r := ((?cur ?r)(?s + li := oldContent e))(?s + f := blankCell))"
        using identityStep_no_email(1) [OF w1(2), of E True "?s + f" f] None
        by (simp add: w1(1,3) em assms(9))
      then show ?thesis by (rule that)
    next
      case (Some email)
      have "getValueAt (onEdit E (Some e) w) ?n =
              ?cur(?r := ((?cur ?r)(?s + li := oldContent e))(?s + f := stored (newValOf e sh)))"
        using identityStep_email(1) [OF w1(2), of email E True "?s + f" f] Some
        by (simp add: w1(1,3) em assms(9))
      then show ?thesis by (rule that)
    qed
    show ?thesis
    proof (cases "r = ?r")
      case False
      with pre' show ?thesis by (simp add: fin)
    next
      case True
      from blk show ?thesis
      proof
        assume s: "s = ?s"
        have "sequenceOK (((?cur ?r)(?s + li := oldContent e))(?s + f := v)) ?s"
          by (rule seq_relocated) (use pre' True s assms(9) f li5 in auto)
        then show ?thesis by (simp add: fin True s)
      next
        assume d: "s + 4 < ?s \<or> ?s + 4 < s"
        have "sequenceOK (((?cur ?r)(?s + li := oldContent e))(?s + f := v)) s = sequenceOK (?cur ?r) s"
          using li5 f(1) by (intro seq_other_block [OF d]) auto
        moreover have "sequenceOK ((?cur ?r)(?s + li := oldContent e)) s = sequenceOK (?cur ?r) s"
          using li5 by (intro seq_other_block1 [OF d]) auto
        ultimately show ?thesis using pre' True assms(9) by (simp add: fin)
      qed
    qed
  qed
qed

theorem onEdit_preserves_sequence_witness:
  "sequenceOK (getValueAt (restoreOld (editAt 14 (Some (Str ''X'')) None)
       (falconsWorld (Str ''Active'') [Str ''X'', Str [], Str [], Str [], Str ''X''] (Some ''t@x.org'')))
       ''Falcons'' 4) 10
   \<and> sequenceOK (getValueAt (onEdit demoEnv (Some (editAt 14 (Some (Str ''X'')) None))
       (falconsWorld (Str ''Active'') [Str ''X'', Str [], Str [], Str [], Str ''X''] (Some ''t@x.org'')))
       ''Falcons'' 4) 10
   \<and> getValueAt (onEdit demoEnv (Some (editAt 14 (Some (Str ''X'')) None))
       (falconsWorld (Str ''Active'') [Str ''X'', Str [], Str [], Str [], Str ''X''] (Some ''t@x.org'')))
       ''Falcons'' 4 11 = Str ''X''"
proof -
  let ?ranks = "[Str ''X'', Str [], Str [], Str [], Str ''X'']"
  let ?sh = "falconsSheet (Str ''Active'') ?ranks"
  let ?w = "falconsWorld (Str ''Active'') ?ranks (Some ''t@x.org'')"
  let ?e = "editAt 14 (Some (Str ''X'')) None"
  let ?b = "\<lparr>startCol = 10, endCol = 14\<rparr>"
  let ?wb = "\<lparr>startCol = 10, endCol = 14, label = ''Sep 1, 2025''\<rparr>"
  have h1: "getSheetByName ?w (evSheet ?e) = Some ?sh"
    by (simp add: getSheetByName_def falconsWorld_def falconsSheet_def sheetOf_def editAt_def)
  have h2: "evSheet ?e \<notin> set EXCLUDE_SHEETS" by code_simp
  have h3: "FIRST_STUDENT_ROW < evRow ?e" by code_simp
  have h4: "getActiveWeekBlockCols demoEnv ?sh = Inr (Some ?b)" by code_simp
  have h5: "case Some ?b of Some b \<Rightarrow> startCol b \<le> evCol ?e \<and> evCol ?e \<le> endCol b | None \<Rightarrow> True"
    by code_simp
  have h6: "findIndex (\<lambda>entry. entry = toLowerCase (cellText demoEnv (cells ?sh 2 (evCol ?e))))
              INFRACTION_SEQUENCE = Some 4" by code_simp
  have h7: "truthy (newValOf ?e ?sh)" by code_simp
  have h8: "weekBlockFor demoEnv ?sh (evCol ?e) (Some ?b) = Some ?wb" by code_simp
  have h9: "evCol ?e = startCol ?wb + 4" by code_simp
  have h10: "\<not> isMissing (cells ?sh (evRow ?e) (evCol ?e))" by code_simp
  have pre: "sequenceOK (getValueAt (restoreOld ?e ?w) ''Falcons'' 4) 10" by code_simp
  have v: "getValueAt (onEdit demoEnv (Some ?e) ?w) ''Falcons'' 4 11 = Str ''X''" by code_simp
  have n: "evSheet ?e = ''Falcons''" "startCol ?wb = 10" by code_simp+
  from onEdit_preserves_sequence [OF h1 h2 h3 h4 h5 h6 h7 h8 h9 h10, rule_format, of 10 4] pre v n
  show ?thesis by simp
qed

text \<open>
  The claim as stated fails for a deletion: ranks 1 and 2 are filled and the user
  clears rank 1.  The guard returns at once, and rank 2 stays filled above an empty
  rank 1.  It also fails for a pasted FALSE (the event carries no value and the
  cell reads FALSE) in rank 3 above the empty ranks 1 and 2: the guard returns at
  once as well.
\<close>

theorem onEdit_preserves_sequence_counterexample:
  "sequenceOK (getValueAt (restoreOld (editAt 10 None (Some (Str ''X'')))
       (falconsWorld (Str ''Active'') [Str [], Str ''X'', Str [], Str [], Str []] (Some ''t@x.org'')))
       ''Falcons'' 4) 10
   \<and> \<not> sequenceOK (getValueAt (onEdit demoEnv (Some (editAt 10 None (Some (Str ''X''))))
       (falconsWorld (Str ''Active'') [Str [], Str ''X'', Str [], Str [], Str []] (Some ''t@x.org'')))
       ''Falcons'' 4) 10
   \<and> sequenceOK (getValueAt (restoreOld (editAt 12 None None)
       (falconsWorld (Str ''Active'') [Str [], Str [], Bool False, Str [], Str []] (Some ''t@x.org'')))
       ''Falcons'' 4) 10
   \<and> \<not> sequenceOK (getValueAt (onEdit demoEnv (Some (editAt 12 None None))
       (falconsWorld (Str ''Active'') [Str [], Str [], Bool False, Str [], Str []] (Some ''t@x.org'')))
       ''Falcons'' 4) 10"
  by code_simp

section \<open>The event ledger: an observed key that the ledger holds\<close>

lemma getSheetByName_updateSheet_other:
  "m \<noteq> n \<Longrightarrow> getSheetByName (updateSheet n (setValue r c v) w) m = getSheetByName w m"
  by (simp add: getSheetByName_updateSheet)

text \<open>
  C5.  When the reconciliation observes a non-empty rank cell whose key maps to a
  ledger row, the queue of new rows and the key map stay as they are, no sheet but
  the ledger and no note changes, and a ledger cell that differs afterwards is the
  cell of that row in the \<open>Source Value\<close> column, the stored value was not identical
  to the observed one, and the cell now holds the observed value.  Every other
  field of the row, the identity snapshot among them, is as before.
\<close>

theorem processCell_existing_key:
  assumes "getSheetByName (scWorld st) ''EventLog'' = Some ev"
    and "truthy (jsAt (data ! r) infCol)"
    and "scEventMap st (cellKey E data dsid infCol) = Some rowIdx"
    and "rowIdx \<noteq> 0"
  shows "scNewEvents (processCell E viewName data r dsid studentData eventHeaders infCol st) = scNewEvents st
    \<and> scEventMap (processCell E viewName data r dsid studentData eventHeaders infCol st) = scEventMap st
    \<and> (\<forall>n. n \<noteq> ''EventLog'' \<longrightarrow>
          getSheetByName (scWorld (processCell E viewName data r dsid studentData eventHeaders infCol st)) n
            = getSheetByName (scWorld st) n)
    \<and> getNoteAt (scWorld (processCell E viewName data r dsid studentData eventHeaders infCol st))
         = getNoteAt (scWorld st)
    \<and> (\<forall>r' c'. getValueAt (scWorld (processCell E viewName data r dsid studentData eventHeaders infCol st))
                   ''EventLog'' r' c' \<noteq> cells ev r' c' \<longrightarrow>
          r' = rowIdx \<and> 0 < c' \<and> eventColOf E eventHeaders ''Source Value'' = Some (c' - 1)
          \<and> \<not> strictEq (cells ev rowIdx c') (jsAt (data ! r) infCol)
          \<and> getValueAt (scWorld (processCell E viewName data r dsid studentData eventHeaders infCol st))
               ''EventLog'' r' c' = stored (jsAt (data ! r) infCol))"
proof -
  let ?obs = "jsAt (data ! r) infCol"
  let ?sv = "eventColOf E eventHeaders ''Source Value''"
  let ?st' = "processCell E viewName data r dsid studentData eventHeaders infCol st"
  obtain k where k: "rowIdx = Suc k" using assms(4) by (cases rowIdx) auto
  have nv: "?obs \<noteq> Str []" using assms(2) by auto
  have hs: "hasSheet (scWorld st) ''EventLog''" using assms(1) by (simp add: hasSheet_def)
  have gv: "getValueAt (scWorld st) ''EventLog'' = cells ev" by (rule getValueAt_cells [OF assms(1)])
  have key: "scEventMap st (cellKey E data dsid infCol) = Some (Suc k)"
    using assms(3) k by simp
  show ?thesis
  proof (cases ?sv)
    case None
    then have "?st' = (if \<not> strictEq Undefined ?obs
                       then st\<lparr>scFault := Some (ErrorThrown ''getRange: the column is not a number'')\<rparr> else st)"
      using assms(1,2) nv key by (simp add: processCell_def Let_def jsAtOpt_def)
    then show ?thesis by (auto simp: gv)
  next
    case (Some i)
    have ex: "jsAtOpt (getValues ev rowIdx 1 1 (length eventHeaders) ! 0) ?sv = cells ev rowIdx (i + 1)"
      if "i < length eventHeaders"
      using that Some by (simp add: jsAtOpt_def jsAt_def)
    have ilen: "i < length eventHeaders"
      using Some eventColOf_less by blast
    have "?st' = (if \<not> strictEq (cells ev rowIdx (i + 1)) ?obs
                  then st\<lparr>scWorld := updateSheet ''EventLog'' (setValue rowIdx (i + 1) ?obs) (scWorld st)\<rparr>
                  else st)"
      using assms(1,2) nv key Some ex [OF ilen] k by (simp add: processCell_def Let_def)
    then show ?thesis
      using Some by (auto simp: gv getValueAt_setValue [OF hs] getSheetByName_updateSheet)
  qed
qed


text \<open>A changed cell whose key the ledger holds: the source value follows, the snapshot stays.\<close>

theorem processCell_existing_key_witness:
  "getValueAt (scWorld (processCell demoEnv ''Hawks'' (getDataRangeValues (hawksSheet (Str ''Y'') [])) 3
       (Str ''S1'') [] (map Str EVENT_LOG_HEADERS) 1 hawksChangedState)) ''EventLog'' 2 11 = Str ''Y''
   \<and> getValueAt (scWorld (processCell demoEnv ''Hawks'' (getDataRangeValues (hawksSheet (Str ''Y'') [])) 3
       (Str ''S1'') [] (map Str EVENT_LOG_HEADERS) 1 hawksChangedState)) ''EventLog'' 2 12
       = Str ''snapshot of S1''"
proof -
  let ?data = "getDataRangeValues (hawksSheet (Str ''Y'') [])"
  let ?st' = "processCell demoEnv ''Hawks'' ?data 3 (Str ''S1'') [] (map Str EVENT_LOG_HEADERS) 1 hawksChangedState"
  have h1: "getSheetByName (scWorld hawksChangedState) ''EventLog'' = Some ledgerOne"
    by (simp add: hawksChangedState_def hawksChangedWorld_def storeOf_def getSheetByName_def
          ledgerOne_def sheetOf_def)
  have h2: "truthy (jsAt (?data ! 3) 1)" by code_simp
  have h3: "scEventMap hawksChangedState (cellKey demoEnv ?data (Str ''S1'') 1) = Some 2" by code_simp
  have h4: "(2::nat) \<noteq> 0" by simp
  have sv: "eventColOf demoEnv (map Str EVENT_LOG_HEADERS) ''Source Value'' = Some 10" by code_simp
  have old: "cells ledgerOne 2 12 = Str ''snapshot of S1''" by code_simp
  have new: "getValueAt (scWorld ?st') ''EventLog'' 2 11 = Str ''Y''" by code_simp
  from processCell_existing_key [OF h1 h2 h3 h4, of "''Hawks''" "[]" "map Str EVENT_LOG_HEADERS"]
  have "getValueAt (scWorld ?st') ''EventLog'' 2 12 \<noteq> cells ledgerOne 2 12 \<longrightarrow>
          eventColOf demoEnv (map Str EVENT_LOG_HEADERS) ''Source Value'' = Some (12 - 1)"
    by blast
  with sv old new show ?thesis by auto
qed

section \<open>The event ledger: a new key observed twice in one run\<close>


lemma dup_F1: "getDataRangeValues emptyLedger = [map Str EVENT_LOG_HEADERS]"
  by code_simp

lemma dup_F2: "getDataRangeValues (hawksSheet (Str ''X'') [Str ''S1'', Str [], Str ''X'', Str [], Str [], Str []]) = hawksData"
  by code_simp

lemma dup_F3: "getLastRow emptyLedger = 1"
  by code_simp

lemma dup_F4: "cellKey demoEnv hawksData (Str ''S1'') 1 = ''S1|1st|Sep 1, 2025''"
  "cellKey demoEnv hawksData (Str ''S1'') 2 = ''S1|2nd|Sep 1, 2025''"
  by code_simp+

lemma dup_F6: "eventColOf demoEnv (map Str EVENT_LOG_HEADERS) ''Source Value'' = Some 10"
  by code_simp

lemma dup_F7: "filter (\<lambda>c. toLowerCase (cellText demoEnv (jsAt (hawksData ! 1) c)) \<in> set INFRACTION_SEQUENCE)
            [0..<length (hawksData ! 2)] = [1, 2, 3, 4, 5]"
  by code_simp

lemma dup_F8: "indexOf (hawksData ! 2) (Str ''DSID'') = Some 0"
  by code_simp

lemma dup_F9: "getLastRow (setValue 3 11 (Str ''X'') emptyLedger) = 3"
  by code_simp

lemma dup_G0: "getSheetByName hawksDuplicateWorld ''EventLog'' = Some emptyLedger"
  "getSheetByName hawksDuplicateWorld ''Hawks'' = Some (hawksSheet (Str ''X'') [Str ''S1'', Str [], Str ''X'', Str [], Str [], Str []])"
  "getSheetByName hawksDuplicateWorld ''StudentList'' = None"
  by (simp_all add: hawksDuplicateWorld_def storeOf_def getSheetByName_def emptyLedger_def sheetOf_def hawksSheet_def)

lemma dup_G1: "getNoteAt hawksDuplicateWorld ''Hawks'' r c = []"
  by (simp add: getNoteAt_def dup_G0 hawksSheet_def sheetOf_def)

lemma dup_G2: "enteredByOf [] = ''unknown''"
  by (simp add: enteredByOf_def)

lemma dup_G3: "jsonStringify demoEnv x = ''{}''"
  by (simp add: demoEnv_def)

lemma dup_G4:
  "objGet (studentDataOf demoEnv [] [] (hawksData ! 2) (hawksData ! 3) (Str ''S1'')) ''Last Name'' = Undefined"
  "objGet (studentDataOf demoEnv [] [] (hawksData ! 2) (hawksData ! 3) (Str ''S1'')) ''First Name'' = Undefined"
  "objGet (studentDataOf demoEnv [] [] (hawksData ! 2) (hawksData ! 3) (Str ''S1'')) ''Grade'' = Undefined"
  "objGet (studentDataOf demoEnv [] [] (hawksData ! 2) (hawksData ! 3) (Str ''S1'')) ''Team'' = Undefined"
  by code_simp+

lemma dup_G5: "formatWeekDate demoEnv (Str (getWeekForInfractionCol demoEnv hawksData 1)) = ''Sep 1, 2025''"
  "formatWeekDate demoEnv (Str (getWeekForInfractionCol demoEnv hawksData 2)) = ''Sep 1, 2025''"
  by code_simp+

lemma dup_V: "jsAt (hawksData ! 3) 0 = Str ''S1''" "jsAt (hawksData ! 4) 0 = Str ''S1''"
  "jsAt (hawksData ! 3) (Suc 0) = Str ''X''" "jsAt (hawksData ! 3) 2 = Str ''X''"
  "jsAt (hawksData ! 3) 3 = Str []" "jsAt (hawksData ! 3) 4 = Str []" "jsAt (hawksData ! 3) 5 = Str []"
  "jsAt (hawksData ! 4) (Suc 0) = Str []" "jsAt (hawksData ! 4) 2 = Str ''X''"
  "jsAt (hawksData ! 4) 3 = Str []" "jsAt (hawksData ! 4) 4 = Str []" "jsAt (hawksData ! 4) 5 = Str []"
  "jsAt (hawksData ! Suc 0) (Suc 0) = Str ''1st''" "jsAt (hawksData ! Suc 0) 2 = Str ''2nd''"
  "cellKey demoEnv hawksData (Str ''S1'') (Suc 0) = ''S1|1st|Sep 1, 2025''"
  "formatWeekDate demoEnv (Str (getWeekForInfractionCol demoEnv hawksData (Suc 0))) = ''Sep 1, 2025''"
  "now demoEnv = 0"
  by code_simp+

lemma dup_R3: "processRow demoEnv ''Hawks'' hawksData [] [] (map Str EVENT_LOG_HEADERS) 0 [1, 2, 3, 4, 5] 3 dupState0 = dupState1"
  by (simp add: processRow_def processCell_def Let_def dup_V dup_F3 dup_F4 dup_G0 dup_G1 dup_G2 dup_G3 dup_G4 dup_G5 dupState0_def dupState1_def hawksRow_def)


lemma dup_Suc3: "Suc (Suc (Suc 0)) = 3" "Suc (Suc 0) = 2"
  by simp_all

lemma dup_W: "cells emptyLedger 3 11 = Str []" "length EVENT_LOG_HEADERS = 13"
  "cellKey demoEnv hawksData (Str ''S1'') 2 = ''S1|2nd|Sep 1, 2025''"
  by code_simp+

lemma dup_K: "scEventMap dupState1 ''S1|2nd|Sep 1, 2025'' = Some (Suc (Suc (Suc 0)))"
  by (simp add: dupState1_def)

lemma processCell_blank:
  "\<not> truthy (jsAt (data ! r) infCol) \<Longrightarrow>
   processCell E viewName data r dsid studentData eventHeaders infCol st = st"
  by (simp add: processCell_def)

lemma dup_P42: "processCell demoEnv ''Hawks'' hawksData 4 (Str ''S1'') sd (map Str EVENT_LOG_HEADERS) 2 dupState1 = dupState2"
  apply (simp only: processCell_def Let_def dup_V dup_W dup_K)
  apply (simp add: dupState1_def dupState0_def dupState2_def dup_G0 dup_F6 dup_W jsAtOpt_def jsAt_def strictEq_def dup_Suc3)
  done

lemma dup_B4: "\<not> truthy (jsAt (hawksData ! 4) 1)" "\<not> truthy (jsAt (hawksData ! 4) 3)"
  "\<not> truthy (jsAt (hawksData ! 4) 4)" "\<not> truthy (jsAt (hawksData ! 4) 5)"
  by code_simp+

lemma dup_NF: "scFault dupState0 = None" "scFault dupState1 = None" "scFault dupState2 = None"
  by (simp_all add: dupState0_def dupState1_def dupState2_def)

lemma dup_R4: "processRow demoEnv ''Hawks'' hawksData [] [] (map Str EVENT_LOG_HEADERS) 0 [1, 2, 3, 4, 5] 4 dupState1 = dupState2"
  apply (simp only: processRow_def Let_def dup_V truthy.simps forEachStep.simps dup_NF)
  apply (simp only: processCell_blank [OF dup_B4(1)] processCell_blank [OF dup_B4(2)] processCell_blank [OF dup_B4(3)]
           processCell_blank [OF dup_B4(4)] dup_P42 dup_NF forEachStep.simps)
  apply simp
  done


lemma dup_E1: "(''EventLog'' \<in> set EXCLUDE_SHEETS) = True" "(''Hawks'' \<in> set EXCLUDE_SHEETS) = False"
  "(length hawksData < FIRST_STUDENT_ROW + 1) = False"
  "[FIRST_STUDENT_ROW..<length hawksData] = [3, 4]"
  by code_simp+

lemma dup_PS_EventLog: "processSheet demoEnv [] [] (map Str EVENT_LOG_HEADERS) ''EventLog'' dupState0 = dupState0"
  by (simp only: processSheet_def dup_E1 if_True)

lemma dup_SW: "scWorld dupState0 = hawksDuplicateWorld" "scNewEvents dupState2 = [hawksRow ''1st'', hawksRow ''2nd'']"
  "scWorld dupState2 = updateSheet ''EventLog'' (setValue 3 11 (Str ''X'')) hawksDuplicateWorld"
  by (simp_all add: dupState0_def dupState1_def dupState2_def)

lemma dup_PS_Hawks: "processSheet demoEnv [] [] (map Str EVENT_LOG_HEADERS) ''Hawks'' dupState0 = dupState2"
  by (simp only: processSheet_def dup_E1 if_False dup_SW dup_G0 option.case dup_F2 Let_def dup_F8 dup_F7 forEachStep.simps dup_NF
        dup_R3 dup_R4 simp_thms)

lemma dup_IM: "initialEventMap demoEnv ec [hs] = Map.empty"
  by (simp add: initialEventMap_def)

lemma dup_NM: "map sheetName (sheets hawksDuplicateWorld) = [''EventLog'', ''Hawks'']"
  by code_simp

lemma dup_AL: "alert demoEnv msg w = w"
  by (simp add: alert_def demoEnv_def)

lemma dup_RUN: "processNewEvents demoEnv hawksDuplicateWorld =
    (updateSheet ''EventLog'' (\<lambda>sh. setRowsFrom (Suc (getLastRow sh)) [hawksRow ''1st'', hawksRow ''2nd''] sh)
       (updateSheet ''EventLog'' (setValue 3 11 (Str ''X'')) hawksDuplicateWorld), None)"
proof -
  have "forEachStep (processSheet demoEnv [] [] (map Str EVENT_LOG_HEADERS)) [''EventLog'', ''Hawks''] dupState0 = dupState2"
    by (simp only: forEachStep.simps dup_NF dup_PS_EventLog dup_PS_Hawks simp_thms if_False)
  then show ?thesis
    by (simp add: processNewEvents_def Let_def dup_G0 dup_F1 dup_IM dup_NM dup_AL dup_SW dup_NF dup_W hawksRow_def flip: dupState0_def)
qed


lemma dup_FIN: "getSheetByName (fst (processNewEvents demoEnv hawksDuplicateWorld)) ''EventLog''
    = Some (setRowsFrom 4 [hawksRow ''1st'', hawksRow ''2nd''] (setValue 3 11 (Str ''X'') emptyLedger))"
  by (simp add: dup_RUN getSheetByName_updateSheet dup_G0 dup_F9)

lemma dup_LK: "ledgerKeys demoEnv (setRowsFrom 4 [hawksRow ''1st'', hawksRow ''2nd''] (setValue 3 11 (Str ''X'') emptyLedger))
    = [''||'', ''||'', ''S1|1st|Sep 1, 2025'', ''S1|2nd|Sep 1, 2025'']"
  "cells (setRowsFrom 4 [hawksRow ''1st'', hawksRow ''2nd''] (setValue 3 11 (Str ''X'') emptyLedger)) 3 2 = Str []"
  "cells (setRowsFrom 4 [hawksRow ''1st'', hawksRow ''2nd''] (setValue 3 11 (Str ''X'') emptyLedger)) 3 11 = Str ''X''"
  "ledgerKeys demoEnv emptyLedger = []"
  by code_simp+

text \<open>
  C2.  The run on a ledger that holds its header only and a view on which the
  subject \<open>S1\<close> has two rows: first and second rank on one row, second rank again
  on the other.  The key of the second rank is new and is observed twice.  The
  second observation finds the row number queued for the key, row 3, and writes its
  value into the \<open>Source Value\<close> cell of that row, which does not exist yet; the
  batch is then appended below it.  The ledger ends with an empty row 2 and a row 3
  that holds a source value and no key, both under the same key, above the two
  events.
\<close>

theorem processNewEvents_duplicate_key_run:
  "distinct (ledgerKeysOf demoEnv hawksDuplicateWorld)
   \<and> snd (processNewEvents demoEnv hawksDuplicateWorld) = None
   \<and> ledgerKeysOf demoEnv (fst (processNewEvents demoEnv hawksDuplicateWorld))
       = [''||'', ''||'', ''S1|1st|Sep 1, 2025'', ''S1|2nd|Sep 1, 2025'']
   \<and> \<not> distinct (ledgerKeysOf demoEnv (fst (processNewEvents demoEnv hawksDuplicateWorld)))
   \<and> getValueAt (fst (processNewEvents demoEnv hawksDuplicateWorld)) ''EventLog'' 3 2 = Str []
   \<and> getValueAt (fst (processNewEvents demoEnv hawksDuplicateWorld)) ''EventLog'' 3 11 = Str ''X''"
proof -
  have a: "ledgerKeysOf demoEnv hawksDuplicateWorld = []"
    by (simp only: ledgerKeysOf_def dup_G0 option.case dup_LK)
  have b: "snd (processNewEvents demoEnv hawksDuplicateWorld) = None"
    by (simp only: dup_RUN snd_conv)
  have c: "ledgerKeysOf demoEnv (fst (processNewEvents demoEnv hawksDuplicateWorld))
             = [''||'', ''||'', ''S1|1st|Sep 1, 2025'', ''S1|2nd|Sep 1, 2025'']"
    by (simp only: ledgerKeysOf_def dup_FIN option.case dup_LK)
  have d: "getValueAt (fst (processNewEvents demoEnv hawksDuplicateWorld)) ''EventLog'' 3 2 = Str []"
    "getValueAt (fst (processNewEvents demoEnv hawksDuplicateWorld)) ''EventLog'' 3 11 = Str ''X''"
    by (simp_all only: getValueAt_def dup_FIN option.case dup_LK)
  show ?thesis
    unfolding a b c d by simp
qed

section \<open>The alert scan: frame facts\<close>

lemma unchangedButLog_refl [simp]: "unchangedButLog w w"
  by (simp add: unchangedButLog_def)


lemma outbox_debugLog [simp]: "outbox (debugLog E m w) = outbox w"
  by (simp add: debugLog_def Let_def loggerLogLine_def updateSheet_def insertSheet_def)

lemma documentProperties_debugLog [simp]: "documentProperties (debugLog E m w) = documentProperties w"
  by (simp add: debugLog_def Let_def loggerLogLine_def updateSheet_def insertSheet_def)

lemma uiMessages_debugLog [simp]: "uiMessages (debugLog E m w) = uiMessages w"
  by (simp add: debugLog_def Let_def loggerLogLine_def updateSheet_def insertSheet_def)

lemma outbox_updateSheet [simp]: "outbox (updateSheet n f w) = outbox w"
  by (simp add: updateSheet_def)




lemma getSheetByName_outbox [simp]: "getSheetByName (w\<lparr>outbox := x\<rparr>) n = getSheetByName w n"
  by (simp add: getSheetByName_def)

lemma getValueAt_sheet_cong:
  "getSheetByName w' n = getSheetByName w n \<Longrightarrow> getValueAt w' n = getValueAt w n"
  by (simp add: getValueAt_def fun_eq_iff)

lemma hasSheet_sheet_cong:
  "getSheetByName w' n = getSheetByName w n \<Longrightarrow> hasSheet w' n = hasSheet w n"
  by (simp add: hasSheet_def)

section \<open>The alert scan: preparing a mail\<close>

lemma resolved_of_recipients:
  "map_sum id fst (if hv then getAlertRecipients E ''Variables'' team w else Inr ([], w))
     = resolvedRecipients E w hv team"
  unfolding getAlertRecipients_def resolvedRecipients_def
  by (simp split: sum.splits prod.splits)


lemma resolvedRecipients_cong:
  "getSheetByName w' ''Variables'' = getSheetByName w ''Variables'' \<Longrightarrow>
   resolvedRecipients E w' hv team = resolvedRecipients E w hv team"
  by (simp add: resolvedRecipients_def)

lemma snd_prepareAlert:
  "snd (prepareAlert E events hv i week w) =
     (case getTemplateByName E
             (case getSheetByName w ''Templates'' of Some sh \<Rightarrow> sh | None \<Rightarrow> newSheet ''Templates'')
             ''5th Infraction Notice'' of
        Inl err \<Rightarrow> Inl err
      | Inr tpl \<Rightarrow>
          (case resolvedRecipients E w hv
                  (objGet (baseMergeFields E events i week
                             (case studentOfEvent E events i of None \<Rightarrow> [] | Some obj \<Rightarrow> obj)) ''Team'') of
             Inl err \<Rightarrow> Inl err
           | Inr rs \<Rightarrow>
               composeMail E tpl rs
                 (baseMergeFields E events i week
                    (case studentOfEvent E events i of None \<Rightarrow> [] | Some obj \<Rightarrow> obj))))"
proof -
  define w1 where "w1 = (case studentOfEvent E events i of
                           None \<Rightarrow> debugLog E (''Row '' @ showNat (i + 1) @ '': ERROR parsing student data'') w
                         | Some _ \<Rightarrow> w)"
  define m0 where "m0 = baseMergeFields E events i week
                          (case studentOfEvent E events i of None \<Rightarrow> [] | Some obj \<Rightarrow> obj)"
  define x where "x = (if hv then getAlertRecipients E ''Variables'' (objGet m0 ''Team'') w1 else Inr ([], w1))"
  have v: "getSheetByName w1 ''Variables'' = getSheetByName w ''Variables''"
    by (simp add: w1_def getSheetByName_debugLog split: option.splits)
  have r: "map_sum id fst x = resolvedRecipients E w hv (objGet m0 ''Team'')"
    unfolding x_def resolved_of_recipients by (rule resolvedRecipients_cong [OF v])
  have s: "snd (case x of Inl err \<Rightarrow> (w1, Inl err) | Inr (rs, w2) \<Rightarrow> (w2, composeMail E tpl rs m0))
         = (case resolvedRecipients E w hv (objGet m0 ''Team'') of
              Inl err \<Rightarrow> Inl err | Inr rs \<Rightarrow> composeMail E tpl rs m0)" for tpl
    unfolding r [symmetric] by (cases x) auto
  show ?thesis
    unfolding prepareAlert_def Let_def w1_def [symmetric] m0_def [symmetric] x_def [symmetric]
    by (simp add: s split: sum.splits)
qed

lemma prepareAlert_cong:
  assumes "getSheetByName w' ''Templates'' = getSheetByName w ''Templates''"
    and "getSheetByName w' ''Variables'' = getSheetByName w ''Variables''"
  shows "snd (prepareAlert E events hv i week w') = snd (prepareAlert E events hv i week w)"
  unfolding snd_prepareAlert assms(1) resolvedRecipients_cong [OF assms(2)] ..


section \<open>The alert scan: delivering\<close>

lemma sendAlert_fault [simp]: "asFault (sendAlert E i rs subj bdy st) = asFault st"
  by (simp add: sendAlert_def Let_def split: option.splits)







lemma deliverAlert_no_column:
  "indexOf (events ! 0) (Str ''Alerted'') = None \<Longrightarrow>
   asFault (deliverAlert E events hasLog i week m st) \<noteq> None"
  by (cases m) (simp add: deliverAlert_def Let_def)






section \<open>The alert scan: one iteration\<close>


lemma dispatchAlert_templates:
  "hasTemplates \<Longrightarrow>
   dispatchAlert E events hasLog hasTemplates hv i week st =
     (case snd (prepareAlert E events hv i week (asWorld st)) of
        Inl err \<Rightarrow> st\<lparr>asWorld := fst (prepareAlert E events hv i week (asWorld st)), asFault := Some err\<rparr>
      | Inr m \<Rightarrow> deliverAlert E events hasLog i week m
                  (st\<lparr>asWorld := fst (prepareAlert E events hv i week (asWorld st))\<rparr>))"
  by (simp add: dispatchAlert_def split: prod.splits sum.splits)


lemma alertStep_qualifying:
  assumes "eventQualifies E events taw i"
  shows "\<exists>m. alertStep E events taw hasLog hasTemplates hv i st =
              dispatchAlert E events hasLog hasTemplates hv i (eventWeek E events i)
                (st\<lparr>asWorld := debugLog E m (asWorld st)\<rparr>)"
  using assms unfolding alertStep_def eventQualifies_def eventWeek_def Let_def
  by (auto split: option.splits)




lemma alertStep_no_column:
  assumes q: "eventQualifies E events taw i" and t: "hasTemplates"
    and p: "snd (prepareAlert E events hv i (eventWeek E events i) (asWorld st)) = Inr m"
    and a: "indexOf (events ! 0) (Str ''Alerted'') = None"
  shows "asFault (alertStep E events taw hasLog hasTemplates hv i st) \<noteq> None"
proof -
  obtain l where l: "alertStep E events taw hasLog hasTemplates hv i st =
                       dispatchAlert E events hasLog hasTemplates hv i (eventWeek E events i)
                            (st\<lparr>asWorld := debugLog E l (asWorld st)\<rparr>)"
    using alertStep_qualifying [OF q] by blast
  let ?w1 = "debugLog E l (asWorld st)"
  have p1: "snd (prepareAlert E events hv i (eventWeek E events i) ?w1) = Inr m"
    using p by (simp add: prepareAlert_cong [of ?w1 "asWorld st"] getSheetByName_debugLog)
  show ?thesis unfolding l by (simp add: dispatchAlert_templates [OF t] p1 deliverAlert_no_column [OF a])
qed

section \<open>The alert scan: the loop\<close>



section \<open>The alert scan: a whole scan\<close>





lemma getSheetByName_alert [simp]: "getSheetByName (alert E m w) n = getSheetByName w n"
  by (simp add: alert_def getSheetByName_def)

lemma outbox_alert [simp]: "outbox (alert E m w) = outbox w"
  by (simp add: alert_def)












section \<open>The alert scan: qualifying events and failing mails\<close>






end
